theory Spec2Isabelle
  imports Main "HOL-Library.AList" "HOL-Library.Sublist"
begin

section \<open>Configuration model\<close>

text \<open>
  The typed configuration of \<^verbatim>\<open>main.go\<close> (lines 15 to 99). A Go struct is a record.
  Several structs have a field \<^verbatim>\<open>Name\<close> or \<^verbatim>\<open>AddressPrefix\<close>; the record fields carry the
  struct's name as a prefix where the source's name would clash.
\<close>

record Image =
  Offer :: string
  Publisher :: string
  Sku :: string
  Version :: string

record NIC =
  EnableAcceleratedNetworking :: bool
  EnableIPForwarding :: bool
  nic_Name :: string
  PipName :: string
  SnetName :: string

record NICMAP =
  Nic0 :: string
  Nic1 :: string
  Nic2 :: string

record Rule =
  Access :: string
  DestinationAddressPrefix :: string
  DestinationPortRange :: string
  Direction :: string
  rule_Name :: string
  Priority :: int
  Protocol :: string
  SourceAddressPrefix :: string
  SourcePortRange :: string

record NSG =
  nsg_Name :: string
  Rules :: "Rule list"

record PIP =
  pip_Name :: string

record Route =
  route_AddressPrefix :: string
  route_Name :: string
  NextHopIpAddress :: string
  NextHopType :: string

record RT =
  rt_Name :: string
  DisableBgpRoutePropagation :: bool
  Routes :: "Route list"

record SNET =
  snet_AddressPrefix :: string
  snet_Name :: string
  NSGName :: string
  RTName :: string

record Tags =
  Automation :: string
  Solution :: string

record VM =
  AdminPassword :: string
  AdminUsername :: string
  ComputerName :: string
  vm_Image :: Image
  NicMap :: NICMAP
  StorageAccountType :: string
  VmSize :: string

record VNET =
  AddressSpace :: string
  vnet_NIC :: "NIC list"
  vnet_NSG :: "NSG list"
  vnet_PIP :: "PIP list"
  vnet_RT :: "RT list"
  vnet_SNET :: "SNET list"

section \<open>The host runtime, as the program sees it\<close>

text \<open>
  A resource constructor of the SDK (\<^verbatim>\<open>resources.NewResourceGroup\<close>,
  \<^verbatim>\<open>network.NewSubnet\<close>, ...) hands one declaration to the host runtime and returns a
  pointer to the new resource, or an error. The model keeps the sequence of declarations
  that produced a resource (the emission trace); the handle of a resource is its position
  in that sequence, so two declarations never share a handle, as two pointers would not.
\<close>

type_synonym handle = nat

text \<open>Values that the host resolves later: \<^verbatim>\<open>r.ID()\<close>, \<^verbatim>\<open>r.Name\<close>, \<^verbatim>\<open>r.Result\<close>.\<close>

datatype Output = IdOf handle | NameOf handle | ResultOf handle

datatype sprintf_arg = Str string | Out Output

text \<open>\<^verbatim>\<open>pulumi.Sprintf(format, args...)\<close>: formatted once the host has resolved the outputs.\<close>

datatype formatted = Sprintf string "sprintf_arg list"

type_synonym StringMap = "(string \<times> string) list"

datatype CachingTypes = CachingTypesNone | CachingTypesReadOnly | CachingTypesReadWrite

record NetworkInterfaceIPConfigurationArgs =
  ipc_Name :: string
  ipc_Subnet :: Output
  ipc_PublicIPAddress :: "Output option"

record NetworkInterfaceReferenceArgs =
  ref_Id :: Output
  Primary :: bool

record OSProfileArgs =
  os_AdminPassword :: string
  os_AdminUsername :: string
  AllowExtensionOperations :: bool
  os_ComputerName :: string
  DisablePasswordAuthentication :: bool
  EnableVMAgentPlatformUpdates :: bool
  ProvisionVMAgent :: bool

record PlanArgs =
  plan_Name :: string
  Product :: string
  plan_Publisher :: string

record OSDiskArgs =
  Caching :: CachingTypes
  CreateOption :: string
  DeleteOption :: string
  DiskSizeGB :: int
  ManagedDisk_StorageAccountType :: string
  osd_Name :: formatted

record VirtualMachineArgs =
  HardwareProfile_VmSize :: string
  NetworkInterfaces :: "NetworkInterfaceReferenceArgs list"
  OsProfile :: OSProfileArgs
  Plan :: PlanArgs
  vm_ResourceGroupName :: Output
  ImageReference :: Image
  OsDisk :: OSDiskArgs
  vm_Tags :: StringMap

record RandomStringArgs =
  Length :: int
  Lower :: bool
  MinLower :: int
  MinNumeric :: int
  Numeric :: bool
  Special :: bool
  Upper :: bool

text \<open>
  The argument structs, one constructor per resource type, with the fields the program
  sets, in the order of the source.
\<close>

datatype args =
    ResourceGroupArgs (Tags: StringMap)
  | NetworkSecurityGroupArgs (ResourceGroupName: Output) (SecurityRules: "Rule list")
      (Tags: StringMap)
  | RouteTableArgs (rt_DisableBgpRoutePropagation: bool) (ResourceGroupName: Output)
      (rt_Routes: "Route list") (Tags: StringMap)
  | VirtualNetworkArgs (AddressPrefixes: "string list") (ResourceGroupName: Output)
      (Tags: StringMap)
  | SubnetArgs (AddressPrefix: string) (NetworkSecurityGroup_Id: Output)
      (ResourceGroupName: Output) (RouteTable_Id: Output) (VirtualNetworkName: Output)
  | PublicIPAddressArgs (PublicIPAllocationMethod: string) (ResourceGroupName: Output)
      (Sku_Name: string) (Sku_Tier: string) (Tags: StringMap)
  | NetworkInterfaceArgs (nic_EnableAcceleratedNetworking: bool) (nic_EnableIPForwarding: bool)
      (NicType: string) (IpConfigurations: "NetworkInterfaceIPConfigurationArgs list")
      (ResourceGroupName: Output) (Tags: StringMap)
  | RandomStringArgs (random_args: RandomStringArgs)
  | VirtualMachineArgs (vm_args: VirtualMachineArgs)

datatype kind =
    ResourceGroup | NetworkSecurityGroup | RouteTable | VirtualNetwork | Subnet
  | PublicIPAddress | NetworkInterface | RandomString | VirtualMachine

fun kind_of :: "args \<Rightarrow> kind" where
  "kind_of (ResourceGroupArgs _) = ResourceGroup"
| "kind_of (NetworkSecurityGroupArgs _ _ _) = NetworkSecurityGroup"
| "kind_of (RouteTableArgs _ _ _ _) = RouteTable"
| "kind_of (VirtualNetworkArgs _ _ _) = VirtualNetwork"
| "kind_of (SubnetArgs _ _ _ _ _) = Subnet"
| "kind_of (PublicIPAddressArgs _ _ _ _ _) = PublicIPAddress"
| "kind_of (NetworkInterfaceArgs _ _ _ _ _ _) = NetworkInterface"
| "kind_of (RandomStringArgs _) = RandomString"
| "kind_of (VirtualMachineArgs _) = VirtualMachine"

text \<open>
  One declaration: the name and the arguments given to the constructor, and the options
  \<^verbatim>\<open>pulumi.DependsOn\<close> and \<^verbatim>\<open>pulumi.Parent\<close>. Several \<^verbatim>\<open>DependsOn\<close> slices are filled by
  ranging over a Go map, whose order is not fixed, so the option is a set of handles.
\<close>

record resource =
  res_name :: string
  res_args :: args
  dependsOn :: "handle set"
  parent :: "handle option"

text \<open>
  The host decides on each declaration, knowing the ones before it: \<open>None\<close> accepts,
  \<open>Some msg\<close> is the error the constructor returns.
\<close>

type_synonym host = "resource list \<Rightarrow> resource \<Rightarrow> string option"

section \<open>State, failures and control flow of \<^verbatim>\<open>main\<close>\<close>

text \<open>
  The variables of the closure that the loops update (the five maps and the three slices
  of resources), the emission trace and the stack outputs. A Go map from names to
  pointers is an association list read with \<^const>\<open>map_of\<close> and written with
  \<^const>\<open>AList.update\<close>.
\<close>

record state =
  trace :: "resource list"
  exports :: "(string \<times> string) list"
  nsgMap :: "(string \<times> handle) list"
  rtMap :: "(string \<times> handle) list"
  snetMap :: "(string \<times> handle) list"
  snetResources :: "handle list"
  pipMap :: "(string \<times> handle) list"
  pipResources :: "handle list"
  nicMap :: "(string \<times> handle) list"
  nicResources :: "handle list"

definition init_state :: state where
  "init_state = \<lparr>trace = [], exports = [], nsgMap = [], rtMap = [], snetMap = [],
     snetResources = [], pipMap = [], pipResources = [], nicMap = [], nicResources = []\<rparr>"

text \<open>
  How a run can end other than by \<^verbatim>\<open>return nil\<close>: the wrapped error of
  \<^verbatim>\<open>os.ReadFile\<close>, the panic of \<^verbatim>\<open>cfg.RequireObject\<close> on a key it cannot load, an error
  returned by a resource constructor (returned as it is), and the run-time panic of a
  method call through a nil pointer (the zero value a Go map gives for a missing key).
\<close>

datatype failure =
    ReadmeError string
  | ConfigPanic string
  | HostRuntimeError string
  | NilPointerDereference

type_synonym 'a prog = "state \<Rightarrow> (failure + 'a) \<times> state"

definition return :: "'a \<Rightarrow> 'a prog" where
  "return a = (\<lambda>st. (Inr a, st))"

definition fail :: "failure \<Rightarrow> 'a prog" where
  "fail e = (\<lambda>st. (Inl e, st))"

definition bind :: "'a prog \<Rightarrow> ('a \<Rightarrow> 'b prog) \<Rightarrow> 'b prog" where
  "bind m f = (\<lambda>st. case m st of (Inl e, st') \<Rightarrow> (Inl e, st') | (Inr a, st') \<Rightarrow> f a st')"

definition gets :: "(state \<Rightarrow> 'a) \<Rightarrow> 'a prog" where
  "gets f = (\<lambda>st. (Inr (f st), st))"

definition modify :: "(state \<Rightarrow> state) \<Rightarrow> unit prog" where
  "modify f = (\<lambda>st. (Inr (), f st))"

text \<open>\<^verbatim>\<open>for _, x := range xs { body }\<close>, where the body may return an error or panic.\<close>

fun forM :: "('a \<Rightarrow> unit prog) \<Rightarrow> 'a list \<Rightarrow> unit prog" where
  "forM body [] = return ()"
| "forM body (x # xs) = bind (body x) (\<lambda>_. forM body xs)"

text \<open>
  A resource constructor: the declaration is handed to the host. When the host accepts
  it, the declaration joins the trace and the new handle is returned. When the
  constructor returns an error, there is no resource, and the trace is as before.
\<close>

definition declared :: "resource \<Rightarrow> state \<Rightarrow> state" where
  "declared d st = st\<lparr>trace := trace st @ [d]\<rparr>"

definition NewResource :: "host \<Rightarrow> resource \<Rightarrow> handle prog" where
  "NewResource host d = (\<lambda>st.
     case host (trace st) d of
       Some msg \<Rightarrow> (Inl (HostRuntimeError msg), st)
     | None \<Rightarrow> (Inr (length (trace st)), declared d st))"

text \<open>\<^verbatim>\<open>m[key].ID()\<close>: a missing key gives a nil pointer, and the method call panics.\<close>

definition ID :: "(state \<Rightarrow> (string \<times> handle) list) \<Rightarrow> string \<Rightarrow> Output prog" where
  "ID m key = (\<lambda>st. case map_of (m st) key of
       None \<Rightarrow> (Inl NilPointerDereference, st)
     | Some h \<Rightarrow> (Inr (IdOf h), st))"

text \<open>\<^verbatim>\<open>ctx.Export(name, value)\<close>.\<close>

definition Export :: "string \<Rightarrow> string \<Rightarrow> unit prog" where
  "Export name v = modify (\<lambda>st. st\<lparr>exports := AList.update name v (exports st)\<rparr>)"

text \<open>\<^verbatim>\<open>cfg.RequireObject(key, &v)\<close> panics when the key is missing or does not fit the type.\<close>

definition RequireObject :: "string \<Rightarrow> 'a option \<Rightarrow> 'a prog" where
  "RequireObject key v = (case v of None \<Rightarrow> fail (ConfigPanic key) | Some x \<Rightarrow> return x)"

text \<open>
  What the run reads from outside: the result of \<^verbatim>\<open>os.ReadFile("./README.md")\<close> (\<open>Inl\<close> the
  error of the operating system), the stack identifier \<^verbatim>\<open>ctx.Stack()\<close>, and the three
  sections of the configuration, absent when \<^verbatim>\<open>RequireObject\<close> cannot load them.
\<close>

record environment =
  ReadFile :: "string + string"
  Stack :: string
  cfg_tags :: "Tags option"
  cfg_vnet :: "VNET option"
  cfg_vm :: "VM option"

section \<open>The program\<close>

text \<open>Lines 127 to 133: the tags given to every taggable resource, and the name suffix.\<close>

definition requiredTags :: "Tags \<Rightarrow> StringMap" where
  "requiredTags tags = [(''automation'', Automation tags), (''solution'', Solution tags)]"

definition nameSuffix :: "string \<Rightarrow> string" where
  "nameSuffix stack = ''panos-vm-'' @ stack @ ''-''"

text \<open>Line 136: the resource group.\<close>

definition rg_decl :: "Tags \<Rightarrow> string \<Rightarrow> resource" where
  "rg_decl tags stack = \<lparr>
     res_name = ''rg-'' @ nameSuffix stack,
     res_args = ResourceGroupArgs (requiredTags tags),
     dependsOn = {},
     parent = None\<rparr>"

definition SecurityRuleTypeArgs :: "Rule \<Rightarrow> Rule" where
  "SecurityRuleTypeArgs rule = \<lparr>
     Access = Access rule,
     DestinationAddressPrefix = DestinationAddressPrefix rule,
     DestinationPortRange = DestinationPortRange rule,
     Direction = Direction rule,
     rule_Name = rule_Name rule,
     Priority = Priority rule,
     Protocol = Protocol rule,
     SourceAddressPrefix = SourceAddressPrefix rule,
     SourcePortRange = SourcePortRange rule\<rparr>"

definition RouteTypeArgs :: "Route \<Rightarrow> Route" where
  "RouteTypeArgs route = \<lparr>
     route_AddressPrefix = route_AddressPrefix route,
     route_Name = route_Name route,
     NextHopIpAddress = NextHopIpAddress route,
     NextHopType = NextHopType route\<rparr>"

text \<open>Lines 145 to 173: one network security group, then \<^verbatim>\<open>nsgMap[nsg.Name] = nsgResource\<close>.\<close>

definition nsg_decl :: "Tags \<Rightarrow> string \<Rightarrow> handle \<Rightarrow> NSG \<Rightarrow> resource" where
  "nsg_decl tags stack resourceGroup nsg = \<lparr>
     res_name = ''nsg-'' @ nsg_Name nsg @ ''-'' @ nameSuffix stack,
     res_args = NetworkSecurityGroupArgs (NameOf resourceGroup)
                  (map SecurityRuleTypeArgs (Rules nsg)) (requiredTags tags),
     dependsOn = {resourceGroup},
     parent = Some resourceGroup\<rparr>"

definition nsg_body :: "host \<Rightarrow> Tags \<Rightarrow> string \<Rightarrow> handle \<Rightarrow> NSG \<Rightarrow> unit prog" where
  "nsg_body host tags stack resourceGroup nsg =
     bind (NewResource host (nsg_decl tags stack resourceGroup nsg))
     (\<lambda>nsgResource. modify (\<lambda>st.
        st\<lparr>nsgMap := AList.update (nsg_Name nsg) nsgResource (nsgMap st)\<rparr>))"

text \<open>Lines 186 to 216: one route table, which waits for the resource group and every NSG.\<close>

definition rt_decl :: "Tags \<Rightarrow> string \<Rightarrow> handle \<Rightarrow> handle set \<Rightarrow> RT \<Rightarrow> resource" where
  "rt_decl tags stack resourceGroup routeTableDependencies rt = \<lparr>
     res_name = ''rt-'' @ rt_Name rt @ ''-'' @ nameSuffix stack,
     res_args = RouteTableArgs (DisableBgpRoutePropagation rt) (NameOf resourceGroup)
                  (map RouteTypeArgs (Routes rt)) (requiredTags tags),
     dependsOn = routeTableDependencies,
     parent = Some resourceGroup\<rparr>"

definition rt_body :: "host \<Rightarrow> Tags \<Rightarrow> string \<Rightarrow> handle \<Rightarrow> RT \<Rightarrow> unit prog" where
  "rt_body host tags stack resourceGroup rt =
     bind (gets (\<lambda>st. insert resourceGroup (set (map snd (nsgMap st)))))
     (\<lambda>routeTableDependencies.
     bind (NewResource host (rt_decl tags stack resourceGroup routeTableDependencies rt))
     (\<lambda>rtResource. modify (\<lambda>st.
        st\<lparr>rtMap := AList.update (rt_Name rt) rtResource (rtMap st)\<rparr>)))"

text \<open>Lines 228 to 248: the virtual network, which waits for every NSG and route table.\<close>

definition vnet_decl :: "Tags \<Rightarrow> string \<Rightarrow> handle \<Rightarrow> handle set \<Rightarrow> VNET \<Rightarrow> resource" where
  "vnet_decl tags stack resourceGroup virtualNetworkDependencies vnet = \<lparr>
     res_name = ''vnet-'' @ nameSuffix stack,
     res_args = VirtualNetworkArgs [AddressSpace vnet] (NameOf resourceGroup)
                  (requiredTags tags),
     dependsOn = virtualNetworkDependencies,
     parent = Some resourceGroup\<rparr>"

text \<open>
  Lines 256 to 276: one subnet. The two identifiers are read from the maps while the
  arguments are built, before the constructor is called.
\<close>

definition snet_decl :: "handle \<Rightarrow> handle set \<Rightarrow> handle \<Rightarrow> SNET \<Rightarrow> Output \<Rightarrow> Output \<Rightarrow> resource"
  where
  "snet_decl resourceGroup virtualNetworkDependencies virtualNetwork snet nsgId rtId = \<lparr>
     res_name = ''snet-'' @ snet_Name snet,
     res_args = SubnetArgs (snet_AddressPrefix snet) nsgId (NameOf resourceGroup) rtId
                  (NameOf virtualNetwork),
     dependsOn = virtualNetworkDependencies,
     parent = Some virtualNetwork\<rparr>"

definition snet_body :: "host \<Rightarrow> handle \<Rightarrow> handle set \<Rightarrow> handle \<Rightarrow> SNET \<Rightarrow> unit prog" where
  "snet_body host resourceGroup virtualNetworkDependencies virtualNetwork snet =
     bind (ID nsgMap (NSGName snet)) (\<lambda>nsgId.
     bind (ID rtMap (RTName snet)) (\<lambda>rtId.
     bind (NewResource host (snet_decl resourceGroup virtualNetworkDependencies
             virtualNetwork snet nsgId rtId))
     (\<lambda>snetResource. modify (\<lambda>st.
        st\<lparr>snetMap := AList.update (snet_Name snet) snetResource (snetMap st),
           snetResources := snetResources st @ [snetResource]\<rparr>))))"

text \<open>Lines 290 to 308: one public IP address, which waits for every subnet.\<close>

definition pip_decl :: "Tags \<Rightarrow> string \<Rightarrow> handle \<Rightarrow> handle set \<Rightarrow> PIP \<Rightarrow> resource" where
  "pip_decl tags stack resourceGroup deps pip = \<lparr>
     res_name = ''pip-'' @ pip_Name pip @ ''-'' @ nameSuffix stack,
     res_args = PublicIPAddressArgs ''Static'' (NameOf resourceGroup) ''Standard''
                  ''Regional'' (requiredTags tags),
     dependsOn = deps,
     parent = Some resourceGroup\<rparr>"

definition pip_body :: "host \<Rightarrow> Tags \<Rightarrow> string \<Rightarrow> handle \<Rightarrow> PIP \<Rightarrow> unit prog" where
  "pip_body host tags stack resourceGroup pip =
     bind (gets (\<lambda>st. set (snetResources st))) (\<lambda>deps.
     bind (NewResource host (pip_decl tags stack resourceGroup deps pip))
     (\<lambda>pipResource. modify (\<lambda>st.
        st\<lparr>pipMap := AList.update (pip_Name pip) pipResource (pipMap st),
           pipResources := pipResources st @ [pipResource]\<rparr>)))"

text \<open>
  Lines 322 to 355: one network interface. The public IP address is set only when
  \<^verbatim>\<open>pipMap\<close> has the key \<^verbatim>\<open>nic.PipName\<close> (the two-value form of the map read).
\<close>

definition ipConfigArgs :: "Output \<Rightarrow> handle option \<Rightarrow> NetworkInterfaceIPConfigurationArgs" where
  "ipConfigArgs snetId found =
     (let args = \<lparr>ipc_Name = ''ipconfig'', ipc_Subnet = snetId, ipc_PublicIPAddress = None\<rparr>
      in case found of
           Some pip \<Rightarrow> args\<lparr>ipc_PublicIPAddress := Some (IdOf pip)\<rparr>
         | None \<Rightarrow> args)"

definition nic_decl ::
    "Tags \<Rightarrow> string \<Rightarrow> handle \<Rightarrow> handle set \<Rightarrow> NIC \<Rightarrow> Output \<Rightarrow> handle option \<Rightarrow> resource" where
  "nic_decl tags stack resourceGroup deps nic snetId found = \<lparr>
     res_name = ''nic-'' @ nic_Name nic @ ''-'' @ nameSuffix stack,
     res_args = NetworkInterfaceArgs (EnableAcceleratedNetworking nic)
                  (EnableIPForwarding nic) ''Standard'' [ipConfigArgs snetId found]
                  (NameOf resourceGroup) (requiredTags tags),
     dependsOn = deps,
     parent = Some resourceGroup\<rparr>"

definition nic_body :: "host \<Rightarrow> Tags \<Rightarrow> string \<Rightarrow> handle \<Rightarrow> NIC \<Rightarrow> unit prog" where
  "nic_body host tags stack resourceGroup nic =
     bind (ID snetMap (SnetName nic)) (\<lambda>snetId.
     bind (gets (\<lambda>st. map_of (pipMap st) (PipName nic))) (\<lambda>found.
     bind (gets (\<lambda>st. set (pipResources st))) (\<lambda>deps.
     bind (NewResource host (nic_decl tags stack resourceGroup deps nic snetId found))
     (\<lambda>nicResource. modify (\<lambda>st.
        st\<lparr>nicMap := AList.update (nic_Name nic) nicResource (nicMap st),
           nicResources := nicResources st @ [nicResource]\<rparr>)))))"

text \<open>Lines 367 to 377: the random string for the name of the OS disk.\<close>

definition randomOsDiskId_args :: RandomStringArgs where
  "randomOsDiskId_args = \<lparr>Length = 8, Lower = True, MinLower = 4, MinNumeric = 4,
     Numeric = True, Special = False, Upper = False\<rparr>"

definition random_decl :: "handle set \<Rightarrow> resource" where
  "random_decl nicDeps = \<lparr>
     res_name = ''random-os-disk-id'',
     res_args = RandomStringArgs randomOsDiskId_args,
     dependsOn = nicDeps,
     parent = None\<rparr>"

text \<open>Lines 383 to 442: the virtual machine.\<close>

definition virtualMachine_args ::
    "Tags \<Rightarrow> string \<Rightarrow> handle \<Rightarrow> VM \<Rightarrow> Output \<Rightarrow> Output \<Rightarrow> Output \<Rightarrow> handle
      \<Rightarrow> VirtualMachineArgs" where
  "virtualMachine_args tags stack resourceGroup vm nic0 nic1 nic2 randomOsDiskId =
     \<lparr>HardwareProfile_VmSize = VmSize vm,
      NetworkInterfaces = [
        \<lparr>ref_Id = nic0, Primary = True\<rparr>,
        \<lparr>ref_Id = nic1, Primary = False\<rparr>,
        \<lparr>ref_Id = nic2, Primary = False\<rparr>],
      OsProfile = \<lparr>
        os_AdminPassword = AdminPassword vm,
        os_AdminUsername = AdminUsername vm,
        AllowExtensionOperations = True,
        os_ComputerName = ComputerName vm,
        DisablePasswordAuthentication = False,
        EnableVMAgentPlatformUpdates = True,
        ProvisionVMAgent = True\<rparr>,
      Plan = \<lparr>
        plan_Name = Sku (vm_Image vm),
        Product = Offer (vm_Image vm),
        plan_Publisher = Publisher (vm_Image vm)\<rparr>,
      vm_ResourceGroupName = NameOf resourceGroup,
      ImageReference = \<lparr>
        Offer = Offer (vm_Image vm),
        Publisher = Publisher (vm_Image vm),
        Sku = Sku (vm_Image vm),
        Version = Version (vm_Image vm)\<rparr>,
      OsDisk = \<lparr>
        Caching = CachingTypesReadWrite,
        CreateOption = ''FromImage'',
        DeleteOption = ''Delete'',
        DiskSizeGB = 127,
        ManagedDisk_StorageAccountType = StorageAccountType vm,
        osd_Name = Sprintf ''os-%s%s'' [Str (nameSuffix stack),
                     Out (ResultOf randomOsDiskId)]\<rparr>,
      vm_Tags = requiredTags tags\<rparr>"

definition vm_decl ::
    "Tags \<Rightarrow> string \<Rightarrow> handle \<Rightarrow> VM \<Rightarrow> handle set \<Rightarrow> Output \<Rightarrow> Output \<Rightarrow> Output \<Rightarrow> handle
      \<Rightarrow> resource" where
  "vm_decl tags stack resourceGroup vm nicDeps nic0 nic1 nic2 randomOsDiskId = \<lparr>
     res_name = ''vm-'' @ Solution tags @ ''-prod-'',
     res_args = VirtualMachineArgs (virtualMachine_args tags stack resourceGroup vm
                  nic0 nic1 nic2 randomOsDiskId),
     dependsOn = insert randomOsDiskId nicDeps,
     parent = Some resourceGroup\<rparr>"

text \<open>
  Lines 126 to 448: everything after the configuration is loaded. The call
  \<^verbatim>\<open>ctx.Value(virtualMachine)\<close> of line 443 reads a context value and changes nothing.
\<close>

definition provision :: "host \<Rightarrow> string \<Rightarrow> Tags \<Rightarrow> VNET \<Rightarrow> VM \<Rightarrow> unit prog" where
  "provision host stack tags vnet vm =
     bind (NewResource host (rg_decl tags stack)) (\<lambda>resourceGroup.
     bind (forM (nsg_body host tags stack resourceGroup) (vnet_NSG vnet)) (\<lambda>_.
     bind (forM (rt_body host tags stack resourceGroup) (vnet_RT vnet)) (\<lambda>_.
     bind (gets (\<lambda>st. set (map snd (nsgMap st)) \<union> set (map snd (rtMap st))))
       (\<lambda>virtualNetworkDependencies.
     bind (NewResource host (vnet_decl tags stack resourceGroup virtualNetworkDependencies
             vnet)) (\<lambda>virtualNetwork.
     bind (forM (snet_body host resourceGroup virtualNetworkDependencies virtualNetwork)
             (vnet_SNET vnet)) (\<lambda>_.
     bind (forM (pip_body host tags stack resourceGroup) (vnet_PIP vnet)) (\<lambda>_.
     bind (forM (nic_body host tags stack resourceGroup) (vnet_NIC vnet)) (\<lambda>_.
     bind (gets (\<lambda>st. set (nicResources st))) (\<lambda>nicDeps.
     bind (NewResource host (random_decl nicDeps)) (\<lambda>randomOsDiskId.
     bind (ID nicMap (Nic0 (NicMap vm))) (\<lambda>nic0.
     bind (ID nicMap (Nic1 (NicMap vm))) (\<lambda>nic1.
     bind (ID nicMap (Nic2 (NicMap vm))) (\<lambda>nic2.
     bind (NewResource host (vm_decl tags stack resourceGroup vm nicDeps nic0 nic1 nic2
             randomOsDiskId)) (\<lambda>virtualMachine.
     return ()))))))))))))))"

text \<open>Lines 102 to 124, then the rest: the function given to \<^verbatim>\<open>pulumi.Run\<close>.\<close>

definition main :: "host \<Rightarrow> environment \<Rightarrow> (failure + unit) \<times> state" where
  "main host env =
     bind (case ReadFile env of
             Inl err \<Rightarrow> fail (ReadmeError err)
           | Inr readmeBytes \<Rightarrow> return readmeBytes) (\<lambda>readmeBytes.
     bind (Export ''readme'' readmeBytes) (\<lambda>_.
     bind (RequireObject ''tags'' (cfg_tags env)) (\<lambda>tags.
     bind (RequireObject ''vnet'' (cfg_vnet env)) (\<lambda>vnet.
     bind (RequireObject ''vm'' (cfg_vm env)) (\<lambda>vm.
     provision host (Stack env) tags vnet vm))))) init_state"

section \<open>Notions used to state the properties\<close>

text \<open>
  The order of section 4.4 of the specification: a kind with a smaller rank is upstream
  of a kind with a larger one.
\<close>

fun rank :: "kind \<Rightarrow> nat" where
  "rank ResourceGroup = 1"
| "rank NetworkSecurityGroup = 2"
| "rank RouteTable = 3"
| "rank VirtualNetwork = 4"
| "rank Subnet = 5"
| "rank PublicIPAddress = 6"
| "rank NetworkInterface = 7"
| "rank RandomString = 8"
| "rank VirtualMachine = 9"

text \<open>The kind of a declaration is the kind of its argument struct.\<close>

definition kind :: "resource \<Rightarrow> kind" where
  "kind d = kind_of (res_args d)"

text \<open>
  The declarations of a complete run, by kind, in the order of section 4.4: one resource
  group, the NSGs, the route tables, the virtual network, the subnets, the public IP
  addresses, the interfaces, the random string, the virtual machine.
\<close>

definition declaration_order :: "VNET \<Rightarrow> kind list" where
  "declaration_order v =
     [ResourceGroup] @ replicate (length (vnet_NSG v)) NetworkSecurityGroup
     @ replicate (length (vnet_RT v)) RouteTable @ [VirtualNetwork]
     @ replicate (length (vnet_SNET v)) Subnet
     @ replicate (length (vnet_PIP v)) PublicIPAddress
     @ replicate (length (vnet_NIC v)) NetworkInterface @ [RandomString, VirtualMachine]"

text \<open>The kinds whose argument struct has a \<^verbatim>\<open>Tags\<close> field, and that field.\<close>

fun taggable :: "kind \<Rightarrow> bool" where
  "taggable Subnet = False"
| "taggable RandomString = False"
| "taggable _ = True"

fun tags_of :: "args \<Rightarrow> StringMap option" where
  "tags_of (ResourceGroupArgs t) = Some t"
| "tags_of (NetworkSecurityGroupArgs _ _ t) = Some t"
| "tags_of (RouteTableArgs _ _ _ t) = Some t"
| "tags_of (VirtualNetworkArgs _ _ t) = Some t"
| "tags_of (SubnetArgs _ _ _ _ _) = None"
| "tags_of (PublicIPAddressArgs _ _ _ _ t) = Some t"
| "tags_of (NetworkInterfaceArgs _ _ _ _ _ t) = Some t"
| "tags_of (RandomStringArgs _) = None"
| "tags_of (VirtualMachineArgs a) = Some (vm_Tags a)"

text \<open>
  The naming rule in the words of section 4.3 of the specification:
  \<^verbatim>\<open><kind-prefix>-<logical-name>-<name-suffix>\<close>.
\<close>

definition spec_declared_name :: "string \<Rightarrow> string \<Rightarrow> string \<Rightarrow> string" where
  "spec_declared_name kind_prefix logical_name name_suffix =
     kind_prefix @ ''-'' @ logical_name @ ''-'' @ name_suffix"

text \<open>
  \<^verbatim>\<open>fmt.Sprintf\<close> for a format whose only verb is \<^verbatim>\<open>%s\<close>: each verb is replaced by the
  next argument. The format of the program has two verbs and two arguments; a verb with
  no argument left is copied here, and an argument left over is dropped.
\<close>

fun sprintf :: "string \<Rightarrow> string list \<Rightarrow> string" where
  "sprintf [] as = []"
| "sprintf [c] as = [c]"
| "sprintf (c # c' # fmt) as =
     (if c = CHR ''%'' \<and> c' = CHR ''s'' \<and> as \<noteq> [] then hd as @ sprintf fmt (tl as)
      else c # sprintf (c' # fmt) as)"

text \<open>The string a formatted output becomes once the host has resolved the outputs in it.\<close>

fun resolve_arg :: "(Output \<Rightarrow> string) \<Rightarrow> sprintf_arg \<Rightarrow> string" where
  "resolve_arg \<rho> (Str s) = s"
| "resolve_arg \<rho> (Out out) = \<rho> out"

fun resolve :: "(Output \<Rightarrow> string) \<Rightarrow> formatted \<Rightarrow> string" where
  "resolve \<rho> (Sprintf fmt as) = sprintf fmt (map (resolve_arg \<rho>) as)"

definition is_lower :: "char \<Rightarrow> bool" where
  "is_lower c = (c \<in> set ''abcdefghijklmnopqrstuvwxyz'')"

definition is_upper :: "char \<Rightarrow> bool" where
  "is_upper c = (c \<in> set ''ABCDEFGHIJKLMNOPQRSTUVWXYZ'')"

definition is_digit :: "char \<Rightarrow> bool" where
  "is_digit c = (c \<in> set ''0123456789'')"

definition count_where :: "(char \<Rightarrow> bool) \<Rightarrow> string \<Rightarrow> nat" where
  "count_where p s = length (filter p s)"

text \<open>
  Modelled from the spec: the generator of the random string belongs to the host runtime
  and is not in the source, which only declares its arguments. The specification (4.3
  and 8) describes the result as a string of the declared length over the enabled
  character classes, no special character when these are off, with at least the declared
  numbers of lowercase letters and of digits. \<open>generated a s\<close> says that \<open>s\<close> is such
  a result for the arguments \<open>a\<close>; a character outside letters and digits is special.
\<close>

definition generated :: "RandomStringArgs \<Rightarrow> string \<Rightarrow> bool" where
  "generated a s =
     (int (length s) = Length a \<and>
      list_all (\<lambda>c. (Lower a \<and> is_lower c) \<or> (Upper a \<and> is_upper c) \<or>
                    (Numeric a \<and> is_digit c) \<or>
                    (Special a \<and> \<not> is_lower c \<and> \<not> is_upper c \<and> \<not> is_digit c)) s \<and>
      MinLower a \<le> int (count_where is_lower s) \<and>
      MinNumeric a \<le> int (count_where is_digit s))"

subsection \<open>Example environments\<close>

definition accept_all :: host where
  "accept_all = (\<lambda>tr d. None)"

definition ex_tags :: Tags where
  "ex_tags = \<lparr>Automation = ''pulumi'', Solution = ''fw''\<rparr>"

definition ex_rule :: Rule where
  "ex_rule = \<lparr>Access = ''Allow'', DestinationAddressPrefix = ''*'',
     DestinationPortRange = ''443'', Direction = ''Inbound'', rule_Name = ''https'',
     Priority = 100, Protocol = ''Tcp'', SourceAddressPrefix = ''*'',
     SourcePortRange = ''*''\<rparr>"

definition ex_nsgs :: "NSG list" where
  "ex_nsgs = [\<lparr>nsg_Name = ''g0'', Rules = [ex_rule]\<rparr>, \<lparr>nsg_Name = ''g1'', Rules = []\<rparr>]"

definition ex_rts :: "RT list" where
  "ex_rts = [\<lparr>rt_Name = ''r0'', DisableBgpRoutePropagation = False, Routes = []\<rparr>]"

definition ex_snets :: "SNET list" where
  "ex_snets = [
     \<lparr>snet_AddressPrefix = ''10.0.0.0/24'', snet_Name = ''s0'', NSGName = ''g0'',
        RTName = ''r0''\<rparr>,
     \<lparr>snet_AddressPrefix = ''10.0.1.0/24'', snet_Name = ''s1'', NSGName = ''g1'',
        RTName = ''r0''\<rparr>]"

definition ex_pips :: "PIP list" where
  "ex_pips = [\<lparr>pip_Name = ''p0''\<rparr>]"

text \<open>
  Three interfaces: one with a public IP address that is declared, one with an empty
  name for it, one with a name that no public IP address has.
\<close>

definition ex_nics :: "NIC list" where
  "ex_nics = [
     \<lparr>EnableAcceleratedNetworking = False, EnableIPForwarding = False, nic_Name = ''n0'',
        PipName = ''p0'', SnetName = ''s0''\<rparr>,
     \<lparr>EnableAcceleratedNetworking = True, EnableIPForwarding = True, nic_Name = ''n1'',
        PipName = '''', SnetName = ''s1''\<rparr>,
     \<lparr>EnableAcceleratedNetworking = True, EnableIPForwarding = True, nic_Name = ''n2'',
        PipName = ''px'', SnetName = ''s1''\<rparr>]"

definition ex_vnet :: VNET where
  "ex_vnet = \<lparr>AddressSpace = ''10.0.0.0/16'', vnet_NIC = ex_nics, vnet_NSG = ex_nsgs,
     vnet_PIP = ex_pips, vnet_RT = ex_rts, vnet_SNET = ex_snets\<rparr>"

definition ex_vm :: VM where
  "ex_vm = \<lparr>AdminPassword = ''secret'', AdminUsername = ''admin'', ComputerName = ''fw0'',
     vm_Image = \<lparr>Offer = ''vmseries-flex'', Publisher = ''paloaltonetworks'', Sku = ''byol'',
       Version = ''latest''\<rparr>,
     NicMap = \<lparr>Nic0 = ''n0'', Nic1 = ''n1'', Nic2 = ''n2''\<rparr>,
     StorageAccountType = ''Standard_LRS'', VmSize = ''Standard_D3_v2''\<rparr>"

definition ex_env :: environment where
  "ex_env = \<lparr>ReadFile = Inr ''# readme'', Stack = ''dev'', cfg_tags = Some ex_tags,
     cfg_vnet = Some ex_vnet, cfg_vm = Some ex_vm\<rparr>"

text \<open>The trace and the final state of the run on \<open>ex_env\<close> when the host accepts everything.\<close>

definition ex_trace :: "resource list" where
  "ex_trace = [
     rg_decl ex_tags ''dev'',
     nsg_decl ex_tags ''dev'' 0 (ex_nsgs ! 0),
     nsg_decl ex_tags ''dev'' 0 (ex_nsgs ! 1),
     rt_decl ex_tags ''dev'' 0 {0, 1, 2} (ex_rts ! 0),
     vnet_decl ex_tags ''dev'' 0 {1, 2, 3} ex_vnet,
     snet_decl 0 {1, 2, 3} 4 (ex_snets ! 0) (IdOf 1) (IdOf 3),
     snet_decl 0 {1, 2, 3} 4 (ex_snets ! 1) (IdOf 2) (IdOf 3),
     pip_decl ex_tags ''dev'' 0 {5, 6} (ex_pips ! 0),
     nic_decl ex_tags ''dev'' 0 {7} (ex_nics ! 0) (IdOf 5) (Some 7),
     nic_decl ex_tags ''dev'' 0 {7} (ex_nics ! 1) (IdOf 6) None,
     nic_decl ex_tags ''dev'' 0 {7} (ex_nics ! 2) (IdOf 6) None,
     random_decl {8, 9, 10},
     vm_decl ex_tags ''dev'' 0 ex_vm {8, 9, 10} (IdOf 8) (IdOf 9) (IdOf 10) 11]"

definition ex_final :: state where
  "ex_final = \<lparr>trace = ex_trace, exports = [(''readme'', ''# readme'')],
     nsgMap = [(''g0'', 1), (''g1'', 2)], rtMap = [(''r0'', 3)],
     snetMap = [(''s0'', 5), (''s1'', 6)], snetResources = [5, 6],
     pipMap = [(''p0'', 7)], pipResources = [7],
     nicMap = [(''n0'', 8), (''n1'', 9), (''n2'', 10)], nicResources = [8, 9, 10]\<rparr>"

section \<open>A Hoare logic for the run\<close>

text \<open>
  \<open>valid P m Q E\<close>: from a state where \<open>P\<close> holds, \<open>m\<close> ends normally in a state
  where \<open>Q\<close> holds of its result, or fails in a state where \<open>E\<close> holds of the failure.
\<close>

definition valid ::
  "(state \<Rightarrow> bool) \<Rightarrow> 'a prog \<Rightarrow> ('a \<Rightarrow> state \<Rightarrow> bool) \<Rightarrow> (failure \<Rightarrow> state \<Rightarrow> bool) \<Rightarrow> bool" where
  "valid P m Q E =
     (\<forall>st. P st \<longrightarrow> (case m st of (Inl e, st') \<Rightarrow> E e st' | (Inr a, st') \<Rightarrow> Q a st'))"

text \<open>The two ways the declarations can fail: a nil pointer, or a refusal of the host.\<close>

definition runtime_failure :: "host \<Rightarrow> failure \<Rightarrow> bool" where
  "runtime_failure host e =
     (e = NilPointerDereference \<or> (\<exists>tr d msg. host tr d = Some msg \<and> e = HostRuntimeError msg))"

text \<open>
  Where the run stands: which loop it is in and which entries of that loop's list are
  done, with the handles the closure holds in its variables at that point.
\<close>

datatype phase =
    P_start
  | P_nsg handle "NSG list"
  | P_rt handle "RT list"
  | P_snet handle "handle set" handle "SNET list"
  | P_pip handle "PIP list"
  | P_nic handle "NIC list"
  | P_vm handle "handle set" handle
  | P_done

text \<open>The kinds of the declarations made when the run has reached a phase.\<close>

fun kinds_at :: "VNET \<Rightarrow> phase \<Rightarrow> kind list" where
  "kinds_at v P_start = []"
| "kinds_at v (P_nsg rg ys) =
     ResourceGroup # replicate (length ys) NetworkSecurityGroup"
| "kinds_at v (P_rt rg ys) =
     ResourceGroup # replicate (length (vnet_NSG v)) NetworkSecurityGroup
     @ replicate (length ys) RouteTable"
| "kinds_at v (P_snet rg deps vn ys) =
     ResourceGroup # replicate (length (vnet_NSG v)) NetworkSecurityGroup
     @ replicate (length (vnet_RT v)) RouteTable @ VirtualNetwork
     # replicate (length ys) Subnet"
| "kinds_at v (P_pip rg ys) =
     ResourceGroup # replicate (length (vnet_NSG v)) NetworkSecurityGroup
     @ replicate (length (vnet_RT v)) RouteTable @ VirtualNetwork
     # replicate (length (vnet_SNET v)) Subnet @ replicate (length ys) PublicIPAddress"
| "kinds_at v (P_nic rg ys) =
     ResourceGroup # replicate (length (vnet_NSG v)) NetworkSecurityGroup
     @ replicate (length (vnet_RT v)) RouteTable @ VirtualNetwork
     # replicate (length (vnet_SNET v)) Subnet
     @ replicate (length (vnet_PIP v)) PublicIPAddress
     @ replicate (length ys) NetworkInterface"
| "kinds_at v (P_vm rg deps rnd) =
     ResourceGroup # replicate (length (vnet_NSG v)) NetworkSecurityGroup
     @ replicate (length (vnet_RT v)) RouteTable @ VirtualNetwork
     # replicate (length (vnet_SNET v)) Subnet
     @ replicate (length (vnet_PIP v)) PublicIPAddress
     @ replicate (length (vnet_NIC v)) NetworkInterface @ [RandomString]"
| "kinds_at v P_done =
     ResourceGroup # replicate (length (vnet_NSG v)) NetworkSecurityGroup
     @ replicate (length (vnet_RT v)) RouteTable @ VirtualNetwork
     # replicate (length (vnet_SNET v)) Subnet
     @ replicate (length (vnet_PIP v)) PublicIPAddress
     @ replicate (length (vnet_NIC v)) NetworkInterface @ [RandomString, VirtualMachine]"

section \<open>What the declarations are built from\<close>

definition of_kind :: "kind \<Rightarrow> resource list \<Rightarrow> resource list" where
  "of_kind k tr = filter (\<lambda>d. kind d = k) tr"

text \<open>The entries of each list of the configuration that are done in a phase.\<close>

fun done_nsg :: "VNET \<Rightarrow> phase \<Rightarrow> NSG list" where
  "done_nsg v P_start = []"
| "done_nsg v (P_nsg rg ys) = ys"
| "done_nsg v ph = vnet_NSG v"

fun done_rt :: "VNET \<Rightarrow> phase \<Rightarrow> RT list" where
  "done_rt v P_start = []"
| "done_rt v (P_nsg rg ys) = []"
| "done_rt v (P_rt rg ys) = ys"
| "done_rt v ph = vnet_RT v"

fun done_snet :: "VNET \<Rightarrow> phase \<Rightarrow> SNET list" where
  "done_snet v (P_snet rg deps vn ys) = ys"
| "done_snet v (P_pip rg ys) = vnet_SNET v"
| "done_snet v (P_nic rg ys) = vnet_SNET v"
| "done_snet v (P_vm rg deps rnd) = vnet_SNET v"
| "done_snet v P_done = vnet_SNET v"
| "done_snet v ph = []"

fun done_pip :: "VNET \<Rightarrow> phase \<Rightarrow> PIP list" where
  "done_pip v (P_pip rg ys) = ys"
| "done_pip v (P_nic rg ys) = vnet_PIP v"
| "done_pip v (P_vm rg deps rnd) = vnet_PIP v"
| "done_pip v P_done = vnet_PIP v"
| "done_pip v ph = []"

fun done_nic :: "VNET \<Rightarrow> phase \<Rightarrow> NIC list" where
  "done_nic v (P_nic rg ys) = ys"
| "done_nic v (P_vm rg deps rnd) = vnet_NIC v"
| "done_nic v P_done = vnet_NIC v"
| "done_nic v ph = []"

text \<open>
  A declaration is built from an entry of the configuration when it is the value of the
  builder on that entry, for some handles; where the builder reads a map, the handles
  are the ones the map gives for the names in the entry.
\<close>

definition nsg_built :: "Tags \<Rightarrow> string \<Rightarrow> NSG \<Rightarrow> resource \<Rightarrow> bool" where
  "nsg_built tags stack x d = (\<exists>rg. d = nsg_decl tags stack rg x)"

definition rt_built :: "Tags \<Rightarrow> string \<Rightarrow> RT \<Rightarrow> resource \<Rightarrow> bool" where
  "rt_built tags stack x d = (\<exists>rg deps. d = rt_decl tags stack rg deps x)"

definition snet_built ::
    "(string \<times> handle) list \<Rightarrow> (string \<times> handle) list \<Rightarrow> SNET \<Rightarrow> resource \<Rightarrow> bool" where
  "snet_built nsgs rts x d =
     (\<exists>rg deps vn hn hr. map_of nsgs (NSGName x) = Some hn \<and> map_of rts (RTName x) = Some hr \<and>
        d = snet_decl rg deps vn x (IdOf hn) (IdOf hr))"

definition pip_built :: "Tags \<Rightarrow> string \<Rightarrow> PIP \<Rightarrow> resource \<Rightarrow> bool" where
  "pip_built tags stack x d = (\<exists>rg deps. d = pip_decl tags stack rg deps x)"

definition nic_built ::
    "Tags \<Rightarrow> string \<Rightarrow> (string \<times> handle) list \<Rightarrow> (string \<times> handle) list \<Rightarrow> NIC \<Rightarrow> resource
      \<Rightarrow> bool" where
  "nic_built tags stack snets pips x d =
     (\<exists>rg deps hs. map_of snets (SnetName x) = Some hs \<and>
        d = nic_decl tags stack rg deps x (IdOf hs) (map_of pips (PipName x)))"

definition vm_built ::
    "Tags \<Rightarrow> string \<Rightarrow> VM \<Rightarrow> (string \<times> handle) list \<Rightarrow> resource list \<Rightarrow> resource \<Rightarrow> bool"
  where
  "vm_built tags stack vm nics tr d =
     (\<exists>rg deps h0 h1 h2 rnd deps'.
        map_of nics (Nic0 (NicMap vm)) = Some h0 \<and>
        map_of nics (Nic1 (NicMap vm)) = Some h1 \<and>
        map_of nics (Nic2 (NicMap vm)) = Some h2 \<and>
        rnd < length tr \<and> tr ! rnd = random_decl deps' \<and>
        d = vm_decl tags stack rg vm deps (IdOf h0) (IdOf h1) (IdOf h2) rnd)"

text \<open>
  The invariant of the declarations: in each phase, the declarations of each kind are
  built, in order, from the entries of the configuration that are done, which are the
  first entries of their list, and the keys of each map are the names of these entries.
\<close>

definition wired :: "Tags \<Rightarrow> string \<Rightarrow> VNET \<Rightarrow> VM \<Rightarrow> phase \<Rightarrow> state \<Rightarrow> bool" where
  "wired tags stack vnet vm ph st =
    (list_all2 (nsg_built tags stack) (done_nsg vnet ph)
       (of_kind NetworkSecurityGroup (trace st)) \<and>
     list_all2 (rt_built tags stack) (done_rt vnet ph) (of_kind RouteTable (trace st)) \<and>
     list_all2 (snet_built (nsgMap st) (rtMap st)) (done_snet vnet ph)
       (of_kind Subnet (trace st)) \<and>
     list_all2 (pip_built tags stack) (done_pip vnet ph)
       (of_kind PublicIPAddress (trace st)) \<and>
     list_all2 (nic_built tags stack (snetMap st) (pipMap st)) (done_nic vnet ph)
       (of_kind NetworkInterface (trace st)) \<and>
     fst ` set (nsgMap st) = nsg_Name ` set (done_nsg vnet ph) \<and>
     fst ` set (rtMap st) = rt_Name ` set (done_rt vnet ph) \<and>
     fst ` set (snetMap st) = snet_Name ` set (done_snet vnet ph) \<and>
     fst ` set (pipMap st) = pip_Name ` set (done_pip vnet ph) \<and>
     fst ` set (nicMap st) = nic_Name ` set (done_nic vnet ph) \<and>
     list_all (\<lambda>d. d = rg_decl tags stack) (of_kind ResourceGroup (trace st)) \<and>
     list_all (\<lambda>d. \<exists>rg deps. d = vnet_decl tags stack rg deps vnet)
       (of_kind VirtualNetwork (trace st)) \<and>
     list_all (\<lambda>d. \<exists>deps. d = random_decl deps) (of_kind RandomString (trace st)) \<and>
     list_all (vm_built tags stack vm (nicMap st) (trace st))
       (of_kind VirtualMachine (trace st)) \<and>
     (ph = P_done \<or> of_kind VirtualMachine (trace st) = []) \<and>
     prefix (done_nsg vnet ph) (vnet_NSG vnet) \<and>
     prefix (done_rt vnet ph) (vnet_RT vnet) \<and>
     prefix (done_snet vnet ph) (vnet_SNET vnet) \<and>
     prefix (done_pip vnet ph) (vnet_PIP vnet) \<and>
     prefix (done_nic vnet ph) (vnet_NIC vnet) \<and>
     (case ph of
        P_vm rg deps rnd \<Rightarrow> rnd < length (trace st) \<and> (\<exists>deps'. trace st ! rnd = random_decl deps')
      | _ \<Rightarrow> True))"

text \<open>
  The declared name of a resource of each kind, read off the nine constructor calls, as
  a function of the logical name. The resource group, the virtual network and the random
  string have no logical name; the virtual machine takes the solution tag.
\<close>

fun declared_name :: "string \<Rightarrow> kind \<Rightarrow> string \<Rightarrow> string" where
  "declared_name stack ResourceGroup n = ''rg-'' @ nameSuffix stack"
| "declared_name stack NetworkSecurityGroup n = ''nsg-'' @ n @ ''-'' @ nameSuffix stack"
| "declared_name stack RouteTable n = ''rt-'' @ n @ ''-'' @ nameSuffix stack"
| "declared_name stack VirtualNetwork n = ''vnet-'' @ nameSuffix stack"
| "declared_name stack Subnet n = ''snet-'' @ n"
| "declared_name stack PublicIPAddress n = ''pip-'' @ n @ ''-'' @ nameSuffix stack"
| "declared_name stack NetworkInterface n = ''nic-'' @ n @ ''-'' @ nameSuffix stack"
| "declared_name stack RandomString n = ''random-os-disk-id''"
| "declared_name stack VirtualMachine n = ''vm-'' @ n @ ''-prod-''"

text \<open>
  What a map of the run knows: a name is mapped to the position of the last declaration
  of the kind that has the declared name of that logical name.
\<close>

definition index_last ::
    "kind \<Rightarrow> (string \<Rightarrow> string) \<Rightarrow> (string \<times> handle) list \<Rightarrow> resource list \<Rightarrow> bool" where
  "index_last k name_of m tr =
     (\<forall>n h. map_of m n = Some h \<longrightarrow>
        h < length tr \<and> kind (tr ! h) = k \<and> res_name (tr ! h) = name_of n \<and>
        (\<forall>j. h < j \<longrightarrow> j < length tr \<longrightarrow>
           \<not> (kind (tr ! j) = k \<and> res_name (tr ! j) = name_of n)))"

definition indexed :: "string \<Rightarrow> state \<Rightarrow> bool" where
  "indexed stack st =
    (index_last NetworkSecurityGroup (declared_name stack NetworkSecurityGroup)
       (nsgMap st) (trace st) \<and>
     index_last RouteTable (declared_name stack RouteTable) (rtMap st) (trace st) \<and>
     index_last Subnet (declared_name stack Subnet) (snetMap st) (trace st) \<and>
     index_last PublicIPAddress (declared_name stack PublicIPAddress)
       (pipMap st) (trace st) \<and>
     index_last NetworkInterface (declared_name stack NetworkInterface)
       (nicMap st) (trace st))"

text \<open>
  Every declaration is the value of the builder of its kind on an entry of the
  configuration, with the handles that the maps of the state give.
\<close>

definition built :: "Tags \<Rightarrow> string \<Rightarrow> VNET \<Rightarrow> VM \<Rightarrow> state \<Rightarrow> resource \<Rightarrow> bool" where
  "built tags stack vnet vm st d =
    (case kind d of
       ResourceGroup \<Rightarrow> d = rg_decl tags stack
     | NetworkSecurityGroup \<Rightarrow> (\<exists>x\<in>set (vnet_NSG vnet). nsg_built tags stack x d)
     | RouteTable \<Rightarrow> (\<exists>x\<in>set (vnet_RT vnet). rt_built tags stack x d)
     | VirtualNetwork \<Rightarrow> (\<exists>rg deps. d = vnet_decl tags stack rg deps vnet)
     | Subnet \<Rightarrow> (\<exists>x\<in>set (vnet_SNET vnet). snet_built (nsgMap st) (rtMap st) x d)
     | PublicIPAddress \<Rightarrow> (\<exists>x\<in>set (vnet_PIP vnet). pip_built tags stack x d)
     | NetworkInterface \<Rightarrow>
         (\<exists>x\<in>set (vnet_NIC vnet). nic_built tags stack (snetMap st) (pipMap st) x d)
     | RandomString \<Rightarrow> (\<exists>deps. d = random_decl deps)
     | VirtualMachine \<Rightarrow> vm_built tags stack vm (nicMap st) (trace st) d)"

subsection \<open>What a declared interface is bound to\<close>

text \<open>
  \<open>nic_bound stack st vnet n d\<close>: the declaration \<open>d\<close> is the interface of the entry
  \<open>n\<close>. It has one IP configuration, named \<^verbatim>\<open>ipconfig\<close>, on the subnet that the subnet map
  gives for \<^verbatim>\<open>SnetName\<close>, a declared subnet of that logical name. The configuration has
  the public IP address that the map of public IP addresses gives for \<^verbatim>\<open>PipName\<close>, a
  declared one of that logical name, and none when the map has no such key; the keys of
  that map are the names of the public IP addresses of the configuration.
\<close>

definition nic_bound :: "string \<Rightarrow> state \<Rightarrow> VNET \<Rightarrow> NIC \<Rightarrow> resource \<Rightarrow> bool" where
  "nic_bound stack st vnet n d =
    (kind d = NetworkInterface \<and>
     res_name d = ''nic-'' @ nic_Name n @ ''-'' @ nameSuffix stack \<and>
     (\<exists>hs. map_of (snetMap st) (SnetName n) = Some hs \<and>
        hs < length (trace st) \<and> kind (trace st ! hs) = Subnet \<and>
        res_name (trace st ! hs) = ''snet-'' @ SnetName n \<and>
        IpConfigurations (res_args d) =
          [\<lparr>ipc_Name = ''ipconfig'', ipc_Subnet = IdOf hs,
            ipc_PublicIPAddress = map_option IdOf (map_of (pipMap st) (PipName n))\<rparr>]) \<and>
     (map_of (pipMap st) (PipName n) = None) = (PipName n \<notin> pip_Name ` set (vnet_PIP vnet)) \<and>
     (case map_of (pipMap st) (PipName n) of
        None \<Rightarrow> True
      | Some hp \<Rightarrow> hp < length (trace st) \<and> kind (trace st ! hp) = PublicIPAddress \<and>
          res_name (trace st ! hp) = ''pip-'' @ PipName n @ ''-'' @ nameSuffix stack))"

subsection \<open>More example environments\<close>

text \<open>The example with a public IP address whose logical name is empty.\<close>

definition anon_pip_env :: environment where
  "anon_pip_env = ex_env\<lparr>cfg_vnet := Some (ex_vnet\<lparr>vnet_PIP := [\<lparr>pip_Name = ''''\<rparr>]\<rparr>)\<rparr>"

text \<open>
  The example with a second subnet that names an NSG nobody declares, and the example
  with one subnet that names a route table nobody declares.
\<close>

definition ghost_snets :: "SNET list" where
  "ghost_snets = [ex_snets ! 0,
     \<lparr>snet_AddressPrefix = ''10.0.1.0/24'', snet_Name = ''s1'', NSGName = ''nsg-ghost'',
        RTName = ''r0''\<rparr>]"

definition ghost_nsg_env :: environment where
  "ghost_nsg_env = ex_env\<lparr>cfg_vnet := Some (ex_vnet\<lparr>vnet_SNET := ghost_snets\<rparr>)\<rparr>"

definition ghost_rt_env :: environment where
  "ghost_rt_env = ex_env\<lparr>cfg_vnet := Some (ex_vnet\<lparr>vnet_SNET :=
     [\<lparr>snet_AddressPrefix = ''10.0.0.0/24'', snet_Name = ''s0'', NSGName = ''g0'',
        RTName = ''rt-ghost''\<rparr>]\<rparr>)\<rparr>"






text \<open>The example whose virtual machine names the same interface three times.\<close>

definition same_nic_vm :: VM where
  "same_nic_vm = ex_vm\<lparr>NicMap := \<lparr>Nic0 = ''n0'', Nic1 = ''n0'', Nic2 = ''n0''\<rparr>\<rparr>"

definition same_nic_env :: environment where
  "same_nic_env = ex_env\<lparr>cfg_vm := Some same_nic_vm\<rparr>"

section \<open>Rules of the Hoare logic\<close>

lemma valid_bind:
  assumes "valid P m R E" and "\<And>a. valid (R a) (f a) Q E"
  shows "valid P (bind m f) Q E"
  using assms unfolding valid_def bind_def
  by (fastforce split: prod.splits sum.splits)

lemma valid_pre: "valid P' m Q E \<Longrightarrow> (\<And>st. P st \<Longrightarrow> P' st) \<Longrightarrow> valid P m Q E"
  by (simp add: valid_def)

lemma valid_gets: "valid P (gets f) (\<lambda>a st. a = f st \<and> P st) E"
  by (simp add: valid_def gets_def)

lemma valid_NewResource:
  assumes "\<And>st. P st \<Longrightarrow> F st \<and> Q (length (trace st)) (declared d st)"
  shows "valid P (NewResource host d) Q (\<lambda>e st. F st \<and> runtime_failure host e)"
  using assms
  by (auto simp: valid_def NewResource_def runtime_failure_def split: option.splits)

lemma valid_forM_from:
  assumes "\<And>ys x zs. xs = ys @ x # zs \<Longrightarrow> valid (I ys) (body x) (\<lambda>_. I (ys @ [x])) E"
  shows "xs = ys @ zs \<Longrightarrow> valid (I ys) (forM body zs) (\<lambda>_. I xs) E"
proof (induction zs arbitrary: ys)
  case Nil
  then show ?case by (simp add: valid_def return_def)
next
  case (Cons z zs)
  have step: "valid (I ys) (body z) (\<lambda>_. I (ys @ [z])) E"
    using assms Cons.prems by blast
  have rest: "valid (I (ys @ [z])) (forM body zs) (\<lambda>_. I xs) E"
    using Cons.IH [of "ys @ [z]"] Cons.prems by simp
  have "valid (I ys) (bind (body z) (\<lambda>_. forM body zs)) (\<lambda>_. I xs) E"
    using step rest by (rule valid_bind)
  then show ?case by simp
qed

lemma valid_forM:
  assumes "\<And>ys x zs. xs = ys @ x # zs \<Longrightarrow> valid (I ys) (body x) (\<lambda>_. I (ys @ [x])) E"
  shows "valid (I []) (forM body xs) (\<lambda>_. I xs) E"
  using valid_forM_from [where ys = "[]" and zs = xs and xs = xs and I = I and body = body
      and E = E] assms
  by simp

subsection \<open>The loop bodies and the last stage, as state transformers\<close>

lemma nsg_body_valid:
  assumes "\<And>st. P st \<Longrightarrow> F st \<and>
            Q ((declared (nsg_decl tags stack rg x) st)\<lparr>nsgMap :=
                    AList.update (nsg_Name x) (length (trace st)) (nsgMap st)\<rparr>)"
  shows "valid P (nsg_body host tags stack rg x) (\<lambda>_. Q)
           (\<lambda>e st. F st \<and> runtime_failure host e)"
  using assms
  by (auto simp: valid_def nsg_body_def bind_def NewResource_def modify_def
        runtime_failure_def declared_def split: option.splits)

lemma rt_body_valid:
  assumes "\<And>st d. P st \<Longrightarrow>
            d = rt_decl tags stack rg (insert rg (set (map snd (nsgMap st)))) x \<Longrightarrow>
            F st \<and>
            Q ((declared d st)\<lparr>rtMap :=
                 AList.update (rt_Name x) (length (trace st)) (rtMap st)\<rparr>)"
  shows "valid P (rt_body host tags stack rg x) (\<lambda>_. Q)
           (\<lambda>e st. F st \<and> runtime_failure host e)"
  using assms
  by (auto simp: valid_def rt_body_def bind_def gets_def NewResource_def modify_def
        runtime_failure_def declared_def split: option.splits)

lemma snet_body_valid:
  assumes "\<And>st. P st \<Longrightarrow> F st"
    and "\<And>st hn hr d. P st \<Longrightarrow>
            map_of (nsgMap st) (NSGName x) = Some hn \<Longrightarrow>
            map_of (rtMap st) (RTName x) = Some hr \<Longrightarrow>
            d = snet_decl rg deps vn x (IdOf hn) (IdOf hr) \<Longrightarrow>
            Q ((declared d st)\<lparr>
                  snetMap := AList.update (snet_Name x) (length (trace st)) (snetMap st),
                  snetResources := snetResources st @ [length (trace st)]\<rparr>)"
  shows "valid P (snet_body host rg deps vn x) (\<lambda>_. Q)
           (\<lambda>e st. F st \<and> runtime_failure host e)"
  using assms
  by (auto simp: valid_def snet_body_def bind_def ID_def NewResource_def modify_def
        runtime_failure_def declared_def split: option.splits)

lemma pip_body_valid:
  assumes "\<And>st d. P st \<Longrightarrow> d = pip_decl tags stack rg (set (snetResources st)) x \<Longrightarrow>
            F st \<and>
            Q ((declared d st)\<lparr>
               pipMap := AList.update (pip_Name x) (length (trace st)) (pipMap st),
               pipResources := pipResources st @ [length (trace st)]\<rparr>)"
  shows "valid P (pip_body host tags stack rg x) (\<lambda>_. Q)
           (\<lambda>e st. F st \<and> runtime_failure host e)"
  using assms
  by (auto simp: valid_def pip_body_def bind_def gets_def NewResource_def modify_def
        runtime_failure_def declared_def split: option.splits)

lemma nic_body_valid:
  assumes "\<And>st. P st \<Longrightarrow> F st"
    and "\<And>st hs d. P st \<Longrightarrow> map_of (snetMap st) (SnetName x) = Some hs \<Longrightarrow>
            d = nic_decl tags stack rg (set (pipResources st)) x (IdOf hs)
                  (map_of (pipMap st) (PipName x)) \<Longrightarrow>
            Q ((declared d st)\<lparr>
                  nicMap := AList.update (nic_Name x) (length (trace st)) (nicMap st),
                  nicResources := nicResources st @ [length (trace st)]\<rparr>)"
  shows "valid P (nic_body host tags stack rg x) (\<lambda>_. Q)
           (\<lambda>e st. F st \<and> runtime_failure host e)"
  using assms
  by (auto simp: valid_def nic_body_def bind_def ID_def gets_def NewResource_def modify_def
        runtime_failure_def declared_def split: option.splits)

lemma vm_stage_valid:
  assumes "\<And>st. P st \<Longrightarrow> F st"
    and "\<And>st h0 h1 h2 d. P st \<Longrightarrow>
            map_of (nicMap st) (Nic0 (NicMap vm)) = Some h0 \<Longrightarrow>
            map_of (nicMap st) (Nic1 (NicMap vm)) = Some h1 \<Longrightarrow>
            map_of (nicMap st) (Nic2 (NicMap vm)) = Some h2 \<Longrightarrow>
            d = vm_decl tags stack rg vm deps (IdOf h0) (IdOf h1) (IdOf h2) rnd \<Longrightarrow>
            Q (declared d st)"
  shows "valid P
     (bind (ID nicMap (Nic0 (NicMap vm))) (\<lambda>nic0.
      bind (ID nicMap (Nic1 (NicMap vm))) (\<lambda>nic1.
      bind (ID nicMap (Nic2 (NicMap vm))) (\<lambda>nic2.
      bind (NewResource host (vm_decl tags stack rg vm deps nic0 nic1 nic2 rnd))
        (\<lambda>virtualMachine. return ()))))) (\<lambda>_. Q)
     (\<lambda>e st. F st \<and> runtime_failure host e)"
  using assms
  by (auto simp: valid_def bind_def ID_def NewResource_def return_def runtime_failure_def
        declared_def split: option.splits)

subsection \<open>Invariants of the declarations\<close>

text \<open>
  A family of state predicates, one for each phase, that every step of the declarations
  takes to the next one holds when the run ends normally, and some member of it holds
  where the run fails.
\<close>

lemma provision_invariant:
  fixes I :: "phase \<Rightarrow> state \<Rightarrow> bool"
  assumes rg: "\<And>st. I P_start st \<Longrightarrow>
      I (P_nsg (length (trace st)) []) (declared (rg_decl tags stack) st)"
  and nsg: "\<And>rg ys x zs st. vnet_NSG vnet = ys @ x # zs \<Longrightarrow> I (P_nsg rg ys) st \<Longrightarrow>
      I (P_nsg rg (ys @ [x])) ((declared (nsg_decl tags stack rg x) st)\<lparr>nsgMap :=
          AList.update (nsg_Name x) (length (trace st)) (nsgMap st)\<rparr>)"
  and nsg_rt: "\<And>rg st. I (P_nsg rg (vnet_NSG vnet)) st \<Longrightarrow> I (P_rt rg []) st"
  and rt: "\<And>rg ys x zs st d. vnet_RT vnet = ys @ x # zs \<Longrightarrow> I (P_rt rg ys) st \<Longrightarrow>
      d = rt_decl tags stack rg (insert rg (set (map snd (nsgMap st)))) x \<Longrightarrow>
      I (P_rt rg (ys @ [x])) ((declared d st)\<lparr>rtMap :=
          AList.update (rt_Name x) (length (trace st)) (rtMap st)\<rparr>)"
  and vnet: "\<And>rg st deps d. I (P_rt rg (vnet_RT vnet)) st \<Longrightarrow>
      deps = set (map snd (nsgMap st)) \<union> set (map snd (rtMap st)) \<Longrightarrow>
      d = vnet_decl tags stack rg deps vnet \<Longrightarrow>
      I (P_snet rg deps (length (trace st)) []) (declared d st)"
  and snet: "\<And>rg deps vn ys x zs st hn hr d. vnet_SNET vnet = ys @ x # zs \<Longrightarrow>
      I (P_snet rg deps vn ys) st \<Longrightarrow>
      map_of (nsgMap st) (NSGName x) = Some hn \<Longrightarrow>
      map_of (rtMap st) (RTName x) = Some hr \<Longrightarrow>
      d = snet_decl rg deps vn x (IdOf hn) (IdOf hr) \<Longrightarrow>
      I (P_snet rg deps vn (ys @ [x])) ((declared d st)\<lparr>
          snetMap := AList.update (snet_Name x) (length (trace st)) (snetMap st),
          snetResources := snetResources st @ [length (trace st)]\<rparr>)"
  and snet_pip: "\<And>rg deps vn st. I (P_snet rg deps vn (vnet_SNET vnet)) st \<Longrightarrow>
      I (P_pip rg []) st"
  and pip: "\<And>rg ys x zs st d. vnet_PIP vnet = ys @ x # zs \<Longrightarrow> I (P_pip rg ys) st \<Longrightarrow>
      d = pip_decl tags stack rg (set (snetResources st)) x \<Longrightarrow>
      I (P_pip rg (ys @ [x])) ((declared d st)\<lparr>
          pipMap := AList.update (pip_Name x) (length (trace st)) (pipMap st),
          pipResources := pipResources st @ [length (trace st)]\<rparr>)"
  and pip_nic: "\<And>rg st. I (P_pip rg (vnet_PIP vnet)) st \<Longrightarrow> I (P_nic rg []) st"
  and nic: "\<And>rg ys x zs st hs d. vnet_NIC vnet = ys @ x # zs \<Longrightarrow> I (P_nic rg ys) st \<Longrightarrow>
      map_of (snetMap st) (SnetName x) = Some hs \<Longrightarrow>
      d = nic_decl tags stack rg (set (pipResources st)) x (IdOf hs)
            (map_of (pipMap st) (PipName x)) \<Longrightarrow>
      I (P_nic rg (ys @ [x])) ((declared d st)\<lparr>
          nicMap := AList.update (nic_Name x) (length (trace st)) (nicMap st),
          nicResources := nicResources st @ [length (trace st)]\<rparr>)"
  and random: "\<And>rg st d. I (P_nic rg (vnet_NIC vnet)) st \<Longrightarrow>
      d = random_decl (set (nicResources st)) \<Longrightarrow>
      I (P_vm rg (set (nicResources st)) (length (trace st))) (declared d st)"
  and vm: "\<And>rg deps rnd st h0 h1 h2 d. I (P_vm rg deps rnd) st \<Longrightarrow>
      map_of (nicMap st) (Nic0 (NicMap vm)) = Some h0 \<Longrightarrow>
      map_of (nicMap st) (Nic1 (NicMap vm)) = Some h1 \<Longrightarrow>
      map_of (nicMap st) (Nic2 (NicMap vm)) = Some h2 \<Longrightarrow>
      d = vm_decl tags stack rg vm deps (IdOf h0) (IdOf h1) (IdOf h2) rnd \<Longrightarrow>
      I P_done (declared d st)"
  shows "valid (I P_start) (provision host stack tags vnet vm) (\<lambda>_. I P_done)
           (\<lambda>e st. (\<exists>ph. I ph st) \<and> runtime_failure host e)"
proof -
  let ?E = "\<lambda>e st. (\<exists>ph. I ph st) \<and> runtime_failure host e"
  have s_rg: "valid (I P_start) (NewResource host (rg_decl tags stack))
                (\<lambda>rg. I (P_nsg rg [])) ?E"
    by (rule valid_NewResource) (use rg in blast)
  have s_nsg: "valid (I (P_nsg rg [])) (forM (nsg_body host tags stack rg) (vnet_NSG vnet))
                 (\<lambda>_. I (P_nsg rg (vnet_NSG vnet))) ?E" for rg
    by (rule valid_forM [where I = "\<lambda>ys. I (P_nsg rg ys)"], rule nsg_body_valid)
       (use nsg in blast)
  have s_rt: "valid (I (P_nsg rg (vnet_NSG vnet)))
                 (forM (rt_body host tags stack rg) (vnet_RT vnet))
                 (\<lambda>_. I (P_rt rg (vnet_RT vnet))) ?E" for rg
    by (rule valid_pre [OF valid_forM [where I = "\<lambda>ys. I (P_rt rg ys)"]], rule rt_body_valid)
       (use rt nsg_rt in blast)+
  have s_deps: "valid (I (P_rt rg (vnet_RT vnet)))
      (gets (\<lambda>st. set (map snd (nsgMap st)) \<union> set (map snd (rtMap st))))
      (\<lambda>deps st. deps = set (map snd (nsgMap st)) \<union> set (map snd (rtMap st)) \<and>
                  I (P_rt rg (vnet_RT vnet)) st) ?E" for rg
    by (rule valid_gets)
  have s_vnet: "valid (\<lambda>st. deps = set (map snd (nsgMap st)) \<union> set (map snd (rtMap st)) \<and>
                  I (P_rt rg (vnet_RT vnet)) st)
      (NewResource host (vnet_decl tags stack rg deps vnet))
      (\<lambda>vn. I (P_snet rg deps vn [])) ?E" for rg deps
    by (rule valid_NewResource) (use vnet in blast)
  have s_snet: "valid (I (P_snet rg deps vn []))
                 (forM (snet_body host rg deps vn) (vnet_SNET vnet))
                 (\<lambda>_. I (P_snet rg deps vn (vnet_SNET vnet))) ?E" for rg deps vn
    by (rule valid_forM [where I = "\<lambda>ys. I (P_snet rg deps vn ys)"], rule snet_body_valid)
       (use snet in blast)+
  have s_pip: "valid (I (P_snet rg deps vn (vnet_SNET vnet)))
                 (forM (pip_body host tags stack rg) (vnet_PIP vnet))
                 (\<lambda>_. I (P_pip rg (vnet_PIP vnet))) ?E" for rg deps vn
    by (rule valid_pre [OF valid_forM [where I = "\<lambda>ys. I (P_pip rg ys)"]],
        rule pip_body_valid)
       (use pip snet_pip in blast)+
  have s_nic: "valid (I (P_pip rg (vnet_PIP vnet)))
                 (forM (nic_body host tags stack rg) (vnet_NIC vnet))
                 (\<lambda>_. I (P_nic rg (vnet_NIC vnet))) ?E" for rg
    by (rule valid_pre [OF valid_forM [where I = "\<lambda>ys. I (P_nic rg ys)"]],
        rule nic_body_valid)
       (use nic pip_nic in blast)+
  have s_nicDeps: "valid (I (P_nic rg (vnet_NIC vnet))) (gets (\<lambda>st. set (nicResources st)))
      (\<lambda>deps st. deps = set (nicResources st) \<and> I (P_nic rg (vnet_NIC vnet)) st) ?E" for rg
    by (rule valid_gets)
  have s_random: "valid (\<lambda>st. deps = set (nicResources st) \<and> I (P_nic rg (vnet_NIC vnet)) st)
      (NewResource host (random_decl deps)) (\<lambda>rnd. I (P_vm rg deps rnd)) ?E" for rg deps
    by (rule valid_NewResource) (use random in blast)
  have s_vm: "valid (I (P_vm rg deps rnd))
      (bind (ID nicMap (Nic0 (NicMap vm))) (\<lambda>nic0.
       bind (ID nicMap (Nic1 (NicMap vm))) (\<lambda>nic1.
       bind (ID nicMap (Nic2 (NicMap vm))) (\<lambda>nic2.
       bind (NewResource host (vm_decl tags stack rg vm deps nic0 nic1 nic2 rnd))
         (\<lambda>virtualMachine. return ()))))) (\<lambda>_. I P_done) ?E" for rg deps rnd
    by (rule vm_stage_valid) (use vm in blast)+
  show ?thesis
    unfolding provision_def
    apply (rule valid_bind [OF s_rg])
    apply (rule valid_bind [OF s_nsg])
    apply (rule valid_bind [OF s_rt])
    apply (rule valid_bind [OF s_deps])
    apply (rule valid_bind [OF s_vnet])
    apply (rule valid_bind [OF s_snet])
    apply (rule valid_bind [OF s_pip])
    apply (rule valid_bind [OF s_nic])
    apply (rule valid_bind [OF s_nicDeps])
    apply (rule valid_bind [OF s_random])
    apply (rule s_vm)
    done
qed

section \<open>Facts about the builders and the state\<close>

lemma kind_decl [simp]:
  "kind (rg_decl tags stack) = ResourceGroup"
  "kind (nsg_decl tags stack rg nsg) = NetworkSecurityGroup"
  "kind (rt_decl tags stack rg deps rt) = RouteTable"
  "kind (vnet_decl tags stack rg deps vnet) = VirtualNetwork"
  "kind (snet_decl rg deps vn snet nsgId rtId) = Subnet"
  "kind (pip_decl tags stack rg deps pip) = PublicIPAddress"
  "kind (nic_decl tags stack rg deps nic snetId found) = NetworkInterface"
  "kind (random_decl deps) = RandomString"
  "kind (vm_decl tags stack rg vm deps n0 n1 n2 rnd) = VirtualMachine"
  by (simp_all add: kind_def rg_decl_def nsg_decl_def rt_decl_def vnet_decl_def snet_decl_def
        pip_decl_def nic_decl_def random_decl_def vm_decl_def)

lemma trace_declared [simp]: "trace (declared d st) = trace st @ [d]"
  by (simp add: declared_def)

lemma fields_declared [simp]:
  "exports (declared d st) = exports st"
  "nsgMap (declared d st) = nsgMap st"
  "rtMap (declared d st) = rtMap st"
  "snetMap (declared d st) = snetMap st"
  "snetResources (declared d st) = snetResources st"
  "pipMap (declared d st) = pipMap st"
  "pipResources (declared d st) = pipResources st"
  "nicMap (declared d st) = nicMap st"
  "nicResources (declared d st) = nicResources st"
  by (simp_all add: declared_def)

section \<open>The order of the declarations\<close>

lemma sorted_kinds_at: "sorted (map rank (kinds_at v ph))"
  by (cases ph) (auto simp: sorted_append)

lemma provision_kinds:
  "valid (\<lambda>st. trace st = []) (provision host stack tags vnet vm)
     (\<lambda>_ st. map kind (trace st) = kinds_at vnet P_done)
     (\<lambda>e st. (\<exists>ph. map kind (trace st) = kinds_at vnet ph) \<and> runtime_failure host e)"
  by (rule valid_pre,
      rule provision_invariant [where I = "\<lambda>ph st. map kind (trace st) = kinds_at vnet ph"])
     (simp_all add: replicate_append_same)

section \<open>The wiring invariant\<close>

lemma of_kind_snoc [simp]:
  "of_kind k (tr @ [d]) = (if kind d = k then of_kind k tr @ [d] else of_kind k tr)"
  by (simp add: of_kind_def)

lemma of_kind_Nil [simp]: "of_kind k [] = []"
  by (simp add: of_kind_def)

lemma list_all2_snoc: "list_all2 R xs ys \<Longrightarrow> R x y \<Longrightarrow> list_all2 R (xs @ [x]) (ys @ [y])"
  by (simp add: list_all2_appendI)

lemma prefix_snoc: "xs = ys @ x # zs \<Longrightarrow> prefix (ys @ [x]) xs"
  by (simp add: prefix_def)

lemma keys_update: "fst ` set (AList.update k v m) = insert k (fst ` set m)"
  by (simp add: dom_update)

lemma built_by_builder [simp]:
  "nsg_built tags stack x (nsg_decl tags stack rg x)"
  "rt_built tags stack y (rt_decl tags stack rg deps y)"
  "pip_built tags stack z (pip_decl tags stack rg deps z)"
  unfolding nsg_built_def rt_built_def pip_built_def by blast+

lemma snet_builtI:
  "map_of nsgs (NSGName x) = Some hn \<Longrightarrow> map_of rts (RTName x) = Some hr \<Longrightarrow>
   snet_built nsgs rts x (snet_decl rg deps vn x (IdOf hn) (IdOf hr))"
  unfolding snet_built_def by blast

lemma nic_builtI:
  "map_of snets (SnetName x) = Some hs \<Longrightarrow>
   nic_built tags stack snets pips x
     (nic_decl tags stack rg deps x (IdOf hs) (map_of pips (PipName x)))"
  unfolding nic_built_def by blast

lemma vm_builtI:
  "map_of nics (Nic0 (NicMap vm)) = Some h0 \<Longrightarrow> map_of nics (Nic1 (NicMap vm)) = Some h1 \<Longrightarrow>
   map_of nics (Nic2 (NicMap vm)) = Some h2 \<Longrightarrow> rnd < length tr \<Longrightarrow>
   tr ! rnd = random_decl deps' \<Longrightarrow>
   vm_built tags stack vm nics (tr @ [d'])
     (vm_decl tags stack rg vm deps (IdOf h0) (IdOf h1) (IdOf h2) rnd)"
  unfolding vm_built_def
  by (rule exI [of _ rg], rule exI [of _ deps], rule exI [of _ h0], rule exI [of _ h1],
      rule exI [of _ h2], rule exI [of _ rnd], rule exI [of _ deps'])
     (simp add: nth_append)

lemma wired_start: "wired tags stack vnet vm P_start (init_state\<lparr>exports := ex\<rparr>)"
  by (simp add: wired_def init_state_def)

lemma provision_wired:
  "valid (wired tags stack vnet vm P_start) (provision host stack tags vnet vm)
     (\<lambda>_. wired tags stack vnet vm P_done)
     (\<lambda>e st. (\<exists>ph. wired tags stack vnet vm ph st) \<and> runtime_failure host e)"
proof (rule provision_invariant [where I = "wired tags stack vnet vm"], goal_cases)
  case (1 st)
  then show ?case by (simp add: wired_def)
next
  case (2 rg ys x zs st)
  then show ?case
    by (auto simp: wired_def keys_update prefix_snoc intro!: list_all2_snoc)
next
  case (3 rg st)
  then show ?case by (simp add: wired_def)
next
  case (4 rg ys x zs st d)
  then show ?case
    by (auto simp: wired_def keys_update prefix_snoc intro!: list_all2_snoc)
next
  case (5 rg st deps d)
  then show ?case by (auto simp: wired_def)
next
  case (6 rg deps vn ys x zs st hn hr d)
  then show ?case
    by (auto simp: wired_def keys_update prefix_snoc intro!: list_all2_snoc snet_builtI)
next
  case (7 rg deps vn st)
  then show ?case by (simp add: wired_def)
next
  case (8 rg ys x zs st d)
  then show ?case
    by (auto simp: wired_def keys_update prefix_snoc intro!: list_all2_snoc)
next
  case (9 rg st)
  then show ?case by (simp add: wired_def)
next
  case (10 rg ys x zs st hs d)
  then show ?case
    by (auto simp: wired_def keys_update prefix_snoc intro!: list_all2_snoc nic_builtI)
next
  case (11 rg st d)
  then show ?case by (auto simp: wired_def)
next
  case (12 rg deps rnd st h0 h1 h2 d)
  then show ?case
    by (auto simp: wired_def intro!: vm_builtI)
qed

section \<open>The maps point to the last declaration of a name\<close>

lemma res_name_decl:
  "res_name (rg_decl tags stack) = declared_name stack ResourceGroup n"
  "res_name (nsg_decl tags stack rg nsg) = declared_name stack NetworkSecurityGroup (nsg_Name nsg)"
  "res_name (rt_decl tags stack rg deps rt) = declared_name stack RouteTable (rt_Name rt)"
  "res_name (vnet_decl tags stack rg deps vnet) = declared_name stack VirtualNetwork n"
  "res_name (snet_decl rg deps vn snet nsgId rtId) = declared_name stack Subnet (snet_Name snet)"
  "res_name (pip_decl tags stack rg deps pip) = declared_name stack PublicIPAddress (pip_Name pip)"
  "res_name (nic_decl tags stack rg deps nic snetId found) =
     declared_name stack NetworkInterface (nic_Name nic)"
  "res_name (random_decl deps) = declared_name stack RandomString n"
  "res_name (vm_decl tags stack rg vm deps n0 n1 n2 rnd) =
     declared_name stack VirtualMachine (Solution tags)"
  by (simp_all add: rg_decl_def nsg_decl_def rt_decl_def vnet_decl_def snet_decl_def
        pip_decl_def nic_decl_def random_decl_def vm_decl_def)

lemma declared_name_inj:
  assumes "declared_name stack k a = declared_name stack k b"
    and "k \<in> {NetworkSecurityGroup, RouteTable, Subnet, PublicIPAddress, NetworkInterface}"
  shows "a = b"
  using assms by auto

lemma index_last_Nil [simp]: "index_last k f [] tr"
  by (simp add: index_last_def)

lemma index_last_other:
  assumes "index_last k f m tr" and "kind d \<noteq> k"
  shows "index_last k f m (tr @ [d])"
  unfolding index_last_def
proof (intro allI impI)
  fix n h
  assume "map_of m n = Some h"
  with assms(1) have h: "h < length tr" "kind (tr ! h) = k" "res_name (tr ! h) = f n"
    and last: "\<And>j. h < j \<Longrightarrow> j < length tr \<Longrightarrow> \<not> (kind (tr ! j) = k \<and> res_name (tr ! j) = f n)"
    unfolding index_last_def by blast+
  show "h < length (tr @ [d]) \<and> kind ((tr @ [d]) ! h) = k \<and> res_name ((tr @ [d]) ! h) = f n \<and>
        (\<forall>j. h < j \<longrightarrow> j < length (tr @ [d]) \<longrightarrow>
           \<not> (kind ((tr @ [d]) ! j) = k \<and> res_name ((tr @ [d]) ! j) = f n))"
    using h last assms(2) by (auto simp: nth_append less_Suc_eq)
qed

lemma index_last_update:
  assumes "index_last k f m tr" and "kind d = k" and "res_name d = f n"
    and inj: "\<And>a b. f a = f b \<Longrightarrow> a = b"
  shows "index_last k f (AList.update n (length tr) m) (tr @ [d])"
  unfolding index_last_def
proof (intro allI impI)
  fix n' h
  assume look: "map_of (AList.update n (length tr) m) n' = Some h"
  show "h < length (tr @ [d]) \<and> kind ((tr @ [d]) ! h) = k \<and> res_name ((tr @ [d]) ! h) = f n' \<and>
        (\<forall>j. h < j \<longrightarrow> j < length (tr @ [d]) \<longrightarrow>
           \<not> (kind ((tr @ [d]) ! j) = k \<and> res_name ((tr @ [d]) ! j) = f n'))"
  proof (cases "n' = n")
    case True
    with look have "h = length tr" by (simp add: update_conv')
    with True assms(2,3) show ?thesis by simp
  next
    case False
    with look have old: "map_of m n' = Some h" by (simp add: update_conv')
    from assms(1) old have h: "h < length tr" "kind (tr ! h) = k" "res_name (tr ! h) = f n'"
      and last: "\<And>j. h < j \<Longrightarrow> j < length tr \<Longrightarrow> \<not> (kind (tr ! j) = k \<and> res_name (tr ! j) = f n')"
      unfolding index_last_def by blast+
    have new: "res_name d \<noteq> f n'"
      using False inj assms(3) by auto
    show ?thesis
      using h last new by (auto simp: nth_append less_Suc_eq)
  qed
qed

lemma index_last_declared:
  assumes "index_last k (declared_name stack k) m tr" and "kind d = k"
    and "res_name d = declared_name stack k n"
    and "k \<in> {NetworkSecurityGroup, RouteTable, Subnet, PublicIPAddress, NetworkInterface}"
  shows "index_last k (declared_name stack k) (AList.update n (length tr) m) (tr @ [d])"
  using assms(1-3) by (rule index_last_update) (use assms(4) declared_name_inj in blast)

declare declared_name.simps [simp del]

lemma provision_indexed:
  "valid (\<lambda>st. indexed stack st) (provision host stack tags vnet vm)
     (\<lambda>_. indexed stack)
     (\<lambda>e st. indexed stack st \<and> runtime_failure host e)"
proof -
  have "valid (\<lambda>st. indexed stack st) (provision host stack tags vnet vm)
     (\<lambda>_. indexed stack)
     (\<lambda>e st. (\<exists>ph::phase. indexed stack st) \<and> runtime_failure host e)"
    by (rule provision_invariant [where I = "\<lambda>ph. indexed stack"])
       (simp_all add: indexed_def index_last_other index_last_declared res_name_decl)
  then show ?thesis by simp
qed

lemma provision_exports:
  "valid (\<lambda>st. exports st = ex) (provision host stack tags vnet vm)
     (\<lambda>_ st. exports st = ex) (\<lambda>e st. exports st = ex \<and> runtime_failure host e)"
proof -
  have "valid (\<lambda>st. exports st = ex) (provision host stack tags vnet vm)
     (\<lambda>_ st. exports st = ex)
     (\<lambda>e st. (\<exists>ph::phase. exports st = ex) \<and> runtime_failure host e)"
    by (rule provision_invariant [where I = "\<lambda>ph st. exports st = ex"]) simp_all
  then show ?thesis by simp
qed

section \<open>From the declarations to the whole run\<close>

lemma validD:
  assumes "valid P m Q E" and "P st" and "m st = (r, st')"
  shows "case r of Inl e \<Rightarrow> E e st' | Inr a \<Rightarrow> Q a st'"
  using assms unfolding valid_def by (fastforce split: sum.splits)

lemma main_readme_fails:
  "ReadFile env = Inl err \<Longrightarrow> main host env = (Inl (ReadmeError err), init_state)"
  by (simp add: main_def bind_def fail_def)

lemma main_config_fails:
  assumes "ReadFile env = Inr r"
    and "cfg_tags env = None \<or> cfg_vnet env = None \<or> cfg_vm env = None"
  shows "\<exists>key. main host env =
           (Inl (ConfigPanic key), init_state\<lparr>exports := [(''readme'', r)]\<rparr>)"
  using assms
  by (cases "cfg_tags env"; cases "cfg_vnet env"; cases "cfg_vm env")
     (simp_all add: main_def bind_def fail_def return_def Export_def modify_def
        RequireObject_def init_state_def)

lemma main_loaded:
  assumes "ReadFile env = Inr r" and "cfg_tags env = Some tags" and "cfg_vnet env = Some vnet"
    and "cfg_vm env = Some vm"
  shows "main host env =
           provision host (Stack env) tags vnet vm (init_state\<lparr>exports := [(''readme'', r)]\<rparr>)"
  using assms
  by (simp add: main_def bind_def return_def Export_def modify_def RequireObject_def
        init_state_def)

lemma main_cases [case_names readme config loaded]:
  obtains err where "ReadFile env = Inl err"
      and "main host env = (Inl (ReadmeError err), init_state)"
  | r key where "ReadFile env = Inr r"
      and "cfg_tags env = None \<or> cfg_vnet env = None \<or> cfg_vm env = None"
      and "main host env = (Inl (ConfigPanic key), init_state\<lparr>exports := [(''readme'', r)]\<rparr>)"
  | r tags vnet vm where "ReadFile env = Inr r" and "cfg_tags env = Some tags"
      and "cfg_vnet env = Some vnet" and "cfg_vm env = Some vm"
      and "main host env =
             provision host (Stack env) tags vnet vm (init_state\<lparr>exports := [(''readme'', r)]\<rparr>)"
proof (cases "ReadFile env")
  case (Inl err)
  then show ?thesis using main_readme_fails that(1) by blast
next
  case (Inr r)
  show ?thesis
  proof (cases "cfg_tags env = None \<or> cfg_vnet env = None \<or> cfg_vm env = None")
    case True
    then show ?thesis using main_config_fails [OF Inr] that(2) Inr by blast
  next
    case False
    then obtain tags vnet vm where "cfg_tags env = Some tags" "cfg_vnet env = Some vnet"
      "cfg_vm env = Some vm" by auto
    then show ?thesis using main_loaded [OF Inr] that(3) Inr by blast
  qed
qed

lemma trace_empty_unless_loaded:
  assumes "d \<in> set (trace (snd (main host env)))"
  obtains r tags vnet vm where "ReadFile env = Inr r" and "cfg_tags env = Some tags"
      and "cfg_vnet env = Some vnet" and "cfg_vm env = Some vm"
      and "main host env =
             provision host (Stack env) tags vnet vm (init_state\<lparr>exports := [(''readme'', r)]\<rparr>)"
  using assms by (cases rule: main_cases [where env = env and host = host]) (auto simp: init_state_def)

lemma run_kinds:
  assumes "main host env =
             provision host stack tags vnet vm (init_state\<lparr>exports := ex\<rparr>)"
  shows "\<exists>ph. map kind (trace (snd (main host env))) = kinds_at vnet ph \<and>
              (fst (main host env) = Inr () \<longrightarrow> ph = P_done)"
proof -
  obtain r st where run: "provision host stack tags vnet vm (init_state\<lparr>exports := ex\<rparr>) = (r, st)"
    by fastforce
  have "case r of Inl e \<Rightarrow> (\<exists>ph. map kind (trace st) = kinds_at vnet ph) \<and> runtime_failure host e
        | Inr a \<Rightarrow> map kind (trace st) = kinds_at vnet P_done"
    by (rule validD [OF provision_kinds _ run]) (simp add: init_state_def)
  then show ?thesis
    using assms run by (cases r) auto
qed

lemma run_wired:
  assumes "main host env =
             provision host stack tags vnet vm (init_state\<lparr>exports := ex\<rparr>)"
  shows "\<exists>ph. wired tags stack vnet vm ph (snd (main host env)) \<and>
              (fst (main host env) = Inr () \<longrightarrow> ph = P_done)"
proof -
  obtain r st where run: "provision host stack tags vnet vm (init_state\<lparr>exports := ex\<rparr>) = (r, st)"
    by fastforce
  have "case r of Inl e \<Rightarrow> (\<exists>ph. wired tags stack vnet vm ph st) \<and> runtime_failure host e
        | Inr a \<Rightarrow> wired tags stack vnet vm P_done st"
    by (rule validD [OF provision_wired wired_start run])
  then show ?thesis
    using assms run by (cases r) auto
qed

lemma run_indexed:
  assumes "main host env =
             provision host stack tags vnet vm (init_state\<lparr>exports := ex\<rparr>)"
  shows "indexed stack (snd (main host env))"
proof -
  obtain r st where run: "provision host stack tags vnet vm (init_state\<lparr>exports := ex\<rparr>) = (r, st)"
    by fastforce
  have "case r of Inl e \<Rightarrow> indexed stack st \<and> runtime_failure host e
        | Inr a \<Rightarrow> indexed stack st"
    by (rule validD [OF provision_indexed _ run]) (simp add: indexed_def init_state_def)
  then show ?thesis
    using assms run by (cases r) auto
qed

lemma run_exports:
  assumes "main host env =
             provision host stack tags vnet vm (init_state\<lparr>exports := ex\<rparr>)"
  shows "exports (snd (main host env)) = ex"
proof -
  obtain r st where run: "provision host stack tags vnet vm (init_state\<lparr>exports := ex\<rparr>) = (r, st)"
    by fastforce
  have "case r of Inl e \<Rightarrow> exports st = ex \<and> runtime_failure host e
        | Inr a \<Rightarrow> exports st = ex"
    by (rule validD [OF provision_exports _ run]) simp
  then show ?thesis
    using assms run by (cases r) auto
qed

lemma run_failure:
  assumes "main host env =
             provision host stack tags vnet vm (init_state\<lparr>exports := ex\<rparr>)"
    and "fst (main host env) = Inl e"
  shows "runtime_failure host e"
proof -
  obtain r st where run: "provision host stack tags vnet vm (init_state\<lparr>exports := ex\<rparr>) = (r, st)"
    by fastforce
  have "case r of Inl e \<Rightarrow> exports st = ex \<and> runtime_failure host e
        | Inr a \<Rightarrow> exports st = ex"
    by (rule validD [OF provision_exports _ run]) simp
  then show ?thesis
    using assms run by (cases r) auto
qed

section \<open>The run on the example environment\<close>

lemmas run_defs = main_def provision_def bind_def return_def fail_def gets_def modify_def
  NewResource_def declared_def ID_def Export_def RequireObject_def init_state_def nsg_body_def
  rt_body_def snet_body_def pip_body_def nic_body_def accept_all_def

lemma ex_run: "main accept_all ex_env = (Inr (), ex_final)"
  by (simp add: run_defs ex_env_def ex_vnet_def ex_vm_def ex_tags_def ex_final_def
        ex_trace_def ex_nsgs_def ex_rts_def ex_snets_def ex_pips_def ex_nics_def
        insert_commute eval_nat_numeral)

lemma ex_kinds:
  "map kind ex_trace = [ResourceGroup, NetworkSecurityGroup, NetworkSecurityGroup, RouteTable,
     VirtualNetwork, Subnet, Subnet, PublicIPAddress, NetworkInterface, NetworkInterface,
     NetworkInterface, RandomString, VirtualMachine]"
  by (simp add: ex_trace_def)

section \<open>The claims\<close>

text \<open>
  C8. When the readme file is read, the run publishes its contents as the stack output
  \<^verbatim>\<open>readme\<close>, and that is the only output, however the run ends. When the file cannot be
  read, the run fails with the error that wraps the one of the operating system, and no
  resource has been declared and nothing published.
\<close>

theorem readme_exported_or_run_fails:
  "(\<forall>readme. ReadFile env = Inr readme \<longrightarrow>
      exports (snd (main host env)) = [(''readme'', readme)]) \<and>
   (\<forall>err. ReadFile env = Inl err \<longrightarrow>
      fst (main host env) = Inl (ReadmeError err) \<and>
      trace (snd (main host env)) = [] \<and> exports (snd (main host env)) = [])"
proof (cases rule: main_cases [where env = env and host = host])
  case (readme err)
  then show ?thesis by (simp add: init_state_def)
next
  case (config r key)
  then show ?thesis by simp
next
  case (loaded r tags vnet vm)
  then show ?thesis using run_exports [OF loaded(5)] by simp
qed

theorem readme_exported_or_run_fails_witness:
  "ReadFile ex_env = Inr ''# readme'' \<and>
   exports (snd (main accept_all ex_env)) = [(''readme'', ''# readme'')] \<and>
   ReadFile (ex_env\<lparr>ReadFile := Inl ''no such file''\<rparr>) = Inl ''no such file'' \<and>
   fst (main accept_all (ex_env\<lparr>ReadFile := Inl ''no such file''\<rparr>))
     = Inl (ReadmeError ''no such file'') \<and>
   trace (snd (main accept_all (ex_env\<lparr>ReadFile := Inl ''no such file''\<rparr>))) = []"
  using readme_exported_or_run_fails [of ex_env accept_all]
    readme_exported_or_run_fails [of "ex_env\<lparr>ReadFile := Inl ''no such file''\<rparr>" accept_all]
  by (simp add: ex_env_def)

text \<open>
  C2. In the sequence of declarations of any run, a declaration of an upstream kind of
  section 4.4 stands before every declaration of a downstream kind: the resource group
  before the NSGs, these before the route tables, these before the virtual network, it
  before the subnets, these before the public IP addresses, these before the interfaces,
  these before the random string, and it before the virtual machine. A run that ends
  normally has made all the declarations of the configuration, kind after kind in that
  order.
\<close>

theorem declaration_order_respected:
  "(\<forall>i j. i < length (trace (snd (main host env))) \<longrightarrow>
          j < length (trace (snd (main host env))) \<longrightarrow>
          rank (kind (trace (snd (main host env)) ! i))
            < rank (kind (trace (snd (main host env)) ! j)) \<longrightarrow> i < j) \<and>
   (\<forall>vnet. fst (main host env) = Inr () \<longrightarrow> cfg_vnet env = Some vnet \<longrightarrow>
      map kind (trace (snd (main host env))) = declaration_order vnet)"
proof (cases rule: main_cases [where env = env and host = host])
  case (readme err)
  then show ?thesis by (simp add: init_state_def)
next
  case (config r key)
  then show ?thesis by (simp add: init_state_def)
next
  case (loaded r tags vnet vm)
  let ?tr = "trace (snd (main host env))"
  obtain ph where ph: "map kind ?tr = kinds_at vnet ph"
    and fin: "fst (main host env) = Inr () \<longrightarrow> ph = P_done"
    using run_kinds [OF loaded(5)] by blast
  have sorted: "sorted (map rank (map kind ?tr))"
    using ph sorted_kinds_at by simp
  have "i < j" if "i < length ?tr" "j < length ?tr"
    "rank (kind (?tr ! i)) < rank (kind (?tr ! j))" for i j
  proof (rule ccontr)
    assume "\<not> i < j"
    then have "j \<le> i" by simp
    then have "map rank (map kind ?tr) ! j \<le> map rank (map kind ?tr) ! i"
      using sorted that(1) by (simp add: sorted_iff_nth_mono del: map_map)
    then show False using that by simp
  qed
  moreover have "map kind ?tr = declaration_order vnet'"
    if "fst (main host env) = Inr ()" "cfg_vnet env = Some vnet'" for vnet'
    using that ph fin loaded(3) by (simp add: declaration_order_def)
  ultimately show ?thesis by blast
qed

theorem declaration_order_respected_witness:
  "(1::nat) < length (trace (snd (main accept_all ex_env))) \<and>
   (5::nat) < length (trace (snd (main accept_all ex_env))) \<and>
   rank (kind (trace (snd (main accept_all ex_env)) ! 1))
     < rank (kind (trace (snd (main accept_all ex_env)) ! 5)) \<and> (1::nat) < 5 \<and>
   fst (main accept_all ex_env) = Inr () \<and> cfg_vnet ex_env = Some ex_vnet \<and>
   map kind (trace (snd (main accept_all ex_env))) =
     [ResourceGroup, NetworkSecurityGroup, NetworkSecurityGroup, RouteTable, VirtualNetwork,
      Subnet, Subnet, PublicIPAddress, NetworkInterface, NetworkInterface, NetworkInterface,
      RandomString, VirtualMachine]"
  using declaration_order_respected [of accept_all ex_env] ex_run ex_kinds
  by (simp add: ex_final_def ex_env_def ex_trace_def)

section \<open>Every declaration comes from a builder\<close>

lemma list_all2_right: "list_all2 R xs ys \<Longrightarrow> y \<in> set ys \<Longrightarrow> \<exists>x\<in>set xs. R x y"
  by (induction rule: list_all2_induct) auto

lemma in_of_kind: "d \<in> set tr \<Longrightarrow> d \<in> set (of_kind (kind d) tr)"
  by (simp add: of_kind_def)

lemma wired_built:
  assumes w: "wired tags stack vnet vm ph st" and d: "d \<in> set (trace st)"
  shows "built tags stack vnet vm st d"
proof -
  note mem = in_of_kind [OF d]
  show ?thesis
  proof (cases "kind d")
    case ResourceGroup
    then show ?thesis using w mem by (auto simp: built_def wired_def list_all_iff)
  next
    case NetworkSecurityGroup
    have "list_all2 (nsg_built tags stack) (done_nsg vnet ph)
            (of_kind NetworkSecurityGroup (trace st))"
      and "prefix (done_nsg vnet ph) (vnet_NSG vnet)"
      using w by (simp_all add: wired_def)
    then show ?thesis
      using mem NetworkSecurityGroup list_all2_right set_mono_prefix
      by (fastforce simp: built_def)
  next
    case RouteTable
    have "list_all2 (rt_built tags stack) (done_rt vnet ph) (of_kind RouteTable (trace st))"
      and "prefix (done_rt vnet ph) (vnet_RT vnet)"
      using w by (simp_all add: wired_def)
    then show ?thesis
      using mem RouteTable list_all2_right set_mono_prefix
      by (fastforce simp: built_def)
  next
    case VirtualNetwork
    then show ?thesis using w mem by (auto simp: built_def wired_def list_all_iff)
  next
    case Subnet
    have "list_all2 (snet_built (nsgMap st) (rtMap st)) (done_snet vnet ph)
            (of_kind Subnet (trace st))"
      and "prefix (done_snet vnet ph) (vnet_SNET vnet)"
      using w by (simp_all add: wired_def)
    then show ?thesis
      using mem Subnet list_all2_right set_mono_prefix
      by (fastforce simp: built_def)
  next
    case PublicIPAddress
    have "list_all2 (pip_built tags stack) (done_pip vnet ph)
            (of_kind PublicIPAddress (trace st))"
      and "prefix (done_pip vnet ph) (vnet_PIP vnet)"
      using w by (simp_all add: wired_def)
    then show ?thesis
      using mem PublicIPAddress list_all2_right set_mono_prefix
      by (fastforce simp: built_def)
  next
    case NetworkInterface
    have "list_all2 (nic_built tags stack (snetMap st) (pipMap st)) (done_nic vnet ph)
            (of_kind NetworkInterface (trace st))"
      and "prefix (done_nic vnet ph) (vnet_NIC vnet)"
      using w by (simp_all add: wired_def)
    then show ?thesis
      using mem NetworkInterface list_all2_right set_mono_prefix
      by (fastforce simp: built_def)
  next
    case RandomString
    then show ?thesis using w mem by (auto simp: built_def wired_def list_all_iff)
  next
    case VirtualMachine
    then show ?thesis using w mem by (auto simp: built_def wired_def list_all_iff)
  qed
qed

lemma run_built:
  assumes "main host env =
             provision host stack tags vnet vm (init_state\<lparr>exports := ex\<rparr>)"
    and "d \<in> set (trace (snd (main host env)))"
  shows "built tags stack vnet vm (snd (main host env)) d"
  using run_wired [OF assms(1)] wired_built assms(2) by blast

lemma tags_of_built:
  assumes "built tags stack vnet vm st d" and "taggable (kind d)"
  shows "tags_of (res_args d) = Some (requiredTags tags)"
  using assms
  by (cases "kind d")
     (auto simp: built_def nsg_built_def rt_built_def pip_built_def nic_built_def vm_built_def
        rg_decl_def nsg_decl_def rt_decl_def vnet_decl_def pip_decl_def nic_decl_def vm_decl_def
        virtualMachine_args_def)

text \<open>
  C7. Every declaration of a taggable kind (resource group, NSG, route table, virtual
  network, public IP address, interface, virtual machine) carries a tag map whose entry
  \<^verbatim>\<open>automation\<close> is the \<^verbatim>\<open>Automation\<close> field and whose entry \<^verbatim>\<open>solution\<close> is the
  \<^verbatim>\<open>Solution\<close> field of the tags section of the configuration.
\<close>

theorem tags_on_every_taggable_resource:
  "\<forall>d\<in>set (trace (snd (main host env))). taggable (kind d) \<longrightarrow>
     (\<exists>tags m. cfg_tags env = Some tags \<and> tags_of (res_args d) = Some m \<and>
        map_of m ''automation'' = Some (Automation tags) \<and>
        map_of m ''solution'' = Some (Solution tags))"
proof (intro ballI impI)
  fix d
  assume d: "d \<in> set (trace (snd (main host env)))" and t: "taggable (kind d)"
  from d obtain r tags vnet vm where tags: "cfg_tags env = Some tags"
    and run: "main host env =
      provision host (Stack env) tags vnet vm (init_state\<lparr>exports := [(''readme'', r)]\<rparr>)"
    by (rule trace_empty_unless_loaded)
  have "tags_of (res_args d) = Some (requiredTags tags)"
    using run_built [OF run d] t by (rule tags_of_built)
  then show "\<exists>tags m. cfg_tags env = Some tags \<and> tags_of (res_args d) = Some m \<and>
        map_of m ''automation'' = Some (Automation tags) \<and>
        map_of m ''solution'' = Some (Solution tags)"
    using tags by (simp add: requiredTags_def)
qed

theorem tags_on_every_taggable_resource_witness:
  "rg_decl ex_tags ''dev'' \<in> set (trace (snd (main accept_all ex_env))) \<and>
   taggable (kind (rg_decl ex_tags ''dev'')) \<and>
   (\<exists>tags m. cfg_tags ex_env = Some tags \<and>
      tags_of (res_args (rg_decl ex_tags ''dev'')) = Some m \<and>
      map_of m ''automation'' = Some (Automation tags) \<and>
      map_of m ''solution'' = Some (Solution tags))"
proof -
  have mem: "rg_decl ex_tags ''dev'' \<in> set (trace (snd (main accept_all ex_env)))"
    by (simp add: ex_run ex_final_def ex_trace_def)
  have tg: "taggable (kind (rg_decl ex_tags ''dev''))"
    by simp
  show ?thesis
    using tags_on_every_taggable_resource [of accept_all ex_env] mem tg by blast
qed

text \<open>
  C4, as the code has it. A network security group, a route table, a public IP address
  and an interface are declared under
  \<^verbatim>\<open><kind-prefix>-<logical-name>-<name-suffix>\<close>, where the name suffix is
  \<^verbatim>\<open>panos-vm-<stack>-\<close>, and a subnet under \<^verbatim>\<open>snet-<logical-name>\<close>. The resource group and
  the virtual network have no logical name and are declared under \<^verbatim>\<open>rg-<name-suffix>\<close> and
  \<^verbatim>\<open>vnet-<name-suffix>\<close>; the random string is declared under \<^verbatim>\<open>random-os-disk-id\<close>, and
  the virtual machine under \<^verbatim>\<open>vm-<solution tag>-prod-\<close>, both without the name suffix.
\<close>

theorem declared_names:
  "nameSuffix (Stack env) = ''panos-vm-'' @ Stack env @ ''-'' \<and>
   (\<forall>d\<in>set (trace (snd (main host env))).
      \<exists>tags vnet. cfg_tags env = Some tags \<and> cfg_vnet env = Some vnet \<and>
       (case kind d of
          ResourceGroup \<Rightarrow> res_name d = ''rg-'' @ nameSuffix (Stack env)
        | NetworkSecurityGroup \<Rightarrow> (\<exists>x\<in>set (vnet_NSG vnet).
            res_name d = spec_declared_name ''nsg'' (nsg_Name x) (nameSuffix (Stack env)))
        | RouteTable \<Rightarrow> (\<exists>x\<in>set (vnet_RT vnet).
            res_name d = spec_declared_name ''rt'' (rt_Name x) (nameSuffix (Stack env)))
        | VirtualNetwork \<Rightarrow> res_name d = ''vnet-'' @ nameSuffix (Stack env)
        | Subnet \<Rightarrow> (\<exists>x\<in>set (vnet_SNET vnet). res_name d = ''snet-'' @ snet_Name x)
        | PublicIPAddress \<Rightarrow> (\<exists>x\<in>set (vnet_PIP vnet).
            res_name d = spec_declared_name ''pip'' (pip_Name x) (nameSuffix (Stack env)))
        | NetworkInterface \<Rightarrow> (\<exists>x\<in>set (vnet_NIC vnet).
            res_name d = spec_declared_name ''nic'' (nic_Name x) (nameSuffix (Stack env)))
        | RandomString \<Rightarrow> res_name d = ''random-os-disk-id''
        | VirtualMachine \<Rightarrow> res_name d = ''vm-'' @ Solution tags @ ''-prod-''))"
proof (intro conjI ballI)
  show "nameSuffix (Stack env) = ''panos-vm-'' @ Stack env @ ''-''"
    by (simp add: nameSuffix_def)
next
  fix d
  assume d: "d \<in> set (trace (snd (main host env)))"
  from d obtain r tags vnet vm where cfg: "cfg_tags env = Some tags" "cfg_vnet env = Some vnet"
    and run: "main host env =
      provision host (Stack env) tags vnet vm (init_state\<lparr>exports := [(''readme'', r)]\<rparr>)"
    by (rule trace_empty_unless_loaded)
  have b: "built tags (Stack env) vnet vm (snd (main host env)) d"
    using run_built [OF run d] .
  have "case kind d of
          ResourceGroup \<Rightarrow> res_name d = ''rg-'' @ nameSuffix (Stack env)
        | NetworkSecurityGroup \<Rightarrow> (\<exists>x\<in>set (vnet_NSG vnet).
            res_name d = spec_declared_name ''nsg'' (nsg_Name x) (nameSuffix (Stack env)))
        | RouteTable \<Rightarrow> (\<exists>x\<in>set (vnet_RT vnet).
            res_name d = spec_declared_name ''rt'' (rt_Name x) (nameSuffix (Stack env)))
        | VirtualNetwork \<Rightarrow> res_name d = ''vnet-'' @ nameSuffix (Stack env)
        | Subnet \<Rightarrow> (\<exists>x\<in>set (vnet_SNET vnet). res_name d = ''snet-'' @ snet_Name x)
        | PublicIPAddress \<Rightarrow> (\<exists>x\<in>set (vnet_PIP vnet).
            res_name d = spec_declared_name ''pip'' (pip_Name x) (nameSuffix (Stack env)))
        | NetworkInterface \<Rightarrow> (\<exists>x\<in>set (vnet_NIC vnet).
            res_name d = spec_declared_name ''nic'' (nic_Name x) (nameSuffix (Stack env)))
        | RandomString \<Rightarrow> res_name d = ''random-os-disk-id''
        | VirtualMachine \<Rightarrow> res_name d = ''vm-'' @ Solution tags @ ''-prod-''"
    using b
    by (cases "kind d")
       (auto simp: built_def nsg_built_def rt_built_def snet_built_def pip_built_def
          nic_built_def vm_built_def rg_decl_def nsg_decl_def rt_decl_def vnet_decl_def
          snet_decl_def pip_decl_def nic_decl_def random_decl_def vm_decl_def
          spec_declared_name_def)
  then show "\<exists>tags vnet. cfg_tags env = Some tags \<and> cfg_vnet env = Some vnet \<and>
       (case kind d of
          ResourceGroup \<Rightarrow> res_name d = ''rg-'' @ nameSuffix (Stack env)
        | NetworkSecurityGroup \<Rightarrow> (\<exists>x\<in>set (vnet_NSG vnet).
            res_name d = spec_declared_name ''nsg'' (nsg_Name x) (nameSuffix (Stack env)))
        | RouteTable \<Rightarrow> (\<exists>x\<in>set (vnet_RT vnet).
            res_name d = spec_declared_name ''rt'' (rt_Name x) (nameSuffix (Stack env)))
        | VirtualNetwork \<Rightarrow> res_name d = ''vnet-'' @ nameSuffix (Stack env)
        | Subnet \<Rightarrow> (\<exists>x\<in>set (vnet_SNET vnet). res_name d = ''snet-'' @ snet_Name x)
        | PublicIPAddress \<Rightarrow> (\<exists>x\<in>set (vnet_PIP vnet).
            res_name d = spec_declared_name ''pip'' (pip_Name x) (nameSuffix (Stack env)))
        | NetworkInterface \<Rightarrow> (\<exists>x\<in>set (vnet_NIC vnet).
            res_name d = spec_declared_name ''nic'' (nic_Name x) (nameSuffix (Stack env)))
        | RandomString \<Rightarrow> res_name d = ''random-os-disk-id''
        | VirtualMachine \<Rightarrow> res_name d = ''vm-'' @ Solution tags @ ''-prod-'')"
    using cfg by blast
qed

theorem declared_names_witness:
  "nsg_decl ex_tags ''dev'' 0 (ex_nsgs ! 0) \<in> set (trace (snd (main accept_all ex_env))) \<and>
   (\<exists>tags vnet. cfg_tags ex_env = Some tags \<and> cfg_vnet ex_env = Some vnet \<and>
      (\<exists>x\<in>set (vnet_NSG vnet).
         res_name (nsg_decl ex_tags ''dev'' 0 (ex_nsgs ! 0))
           = spec_declared_name ''nsg'' (nsg_Name x) (nameSuffix (Stack ex_env))))"
proof -
  have mem: "nsg_decl ex_tags ''dev'' 0 (ex_nsgs ! 0)
               \<in> set (trace (snd (main accept_all ex_env)))"
    by (simp add: ex_run ex_final_def ex_trace_def)
  show ?thesis
    using declared_names [of ex_env accept_all] mem by fastforce
qed

text \<open>
  Counterexample to C4 as the specification states it: on the example environment the
  virtual machine is declared under \<^verbatim>\<open>vm-fw-prod-\<close>, which does not end with the name
  suffix \<^verbatim>\<open>panos-vm-dev-\<close>.
\<close>

theorem declared_names_counterexample:
  "kind (last (trace (snd (main accept_all ex_env)))) = VirtualMachine \<and>
   res_name (last (trace (snd (main accept_all ex_env)))) = ''vm-fw-prod-'' \<and>
   \<not> suffix (nameSuffix (Stack ex_env)) (res_name (last (trace (snd (main accept_all ex_env)))))"
proof -
  have name: "res_name (last (trace (snd (main accept_all ex_env)))) = ''vm-fw-prod-''"
    by (simp add: ex_run ex_final_def ex_trace_def vm_decl_def ex_tags_def)
  have "\<not> suffix (nameSuffix (Stack ex_env)) ''vm-fw-prod-''"
    using suffix_length_le [of "nameSuffix (Stack ex_env)" "''vm-fw-prod-''"]
    by (auto simp: nameSuffix_def ex_env_def)
  then show ?thesis
    using name by (simp add: ex_run ex_final_def ex_trace_def)
qed

section \<open>The random string and the OS disk\<close>

lemma lower_not_digit: "is_lower c \<Longrightarrow> \<not> is_digit c"
  by (auto simp: is_lower_def is_digit_def)

lemma count_split:
  assumes "\<forall>c\<in>set s. (p c \<or> q c) \<and> \<not> (p c \<and> q c)"
  shows "count_where p s + count_where q s = length s"
  using assms unfolding count_where_def
  by (induction s) auto

lemma generated_exact:
  assumes "generated randomOsDiskId_args s"
  shows "length s = 8" and "list_all (\<lambda>c. is_lower c \<or> is_digit c) s"
    and "count_where is_lower s = 4" and "count_where is_digit s = 4"
proof -
  from assms have len: "length s = 8"
    and chars: "list_all (\<lambda>c. is_lower c \<or> is_digit c) s"
    and lo: "4 \<le> count_where is_lower s" and di: "4 \<le> count_where is_digit s"
    by (simp_all add: generated_def randomOsDiskId_args_def)
  have "count_where is_lower s + count_where is_digit s = length s"
    using chars lower_not_digit by (intro count_split) (auto simp: list_all_iff)
  with len lo di show "count_where is_lower s = 4" and "count_where is_digit s = 4"
    by simp_all
  show "length s = 8" and "list_all (\<lambda>c. is_lower c \<or> is_digit c) s"
    using len chars .
qed

lemma sprintf_os: "sprintf ''os-%s%s'' [a, b] = ''os-'' @ a @ b"
  by simp

text \<open>
  C10. The random string is declared with length 8, lowercase letters and digits on,
  uppercase letters and special characters off, at least 4 lowercase letters and at least
  4 digits; so a string that the generator makes for these arguments (\<open>generated\<close>) has
  exactly 4 lowercase letters and exactly 4 digits.
\<close>

theorem random_identifier_four_letters_four_digits:
  "\<forall>d\<in>set (trace (snd (main host env))). kind d = RandomString \<longrightarrow>
     (\<exists>a. res_args d = RandomStringArgs a \<and>
        Length a = 8 \<and> Lower a \<and> MinLower a = 4 \<and> MinNumeric a = 4 \<and> Numeric a \<and>
        \<not> Special a \<and> \<not> Upper a \<and>
        (\<forall>s. generated a s \<longrightarrow>
           length s = 8 \<and> count_where is_lower s = 4 \<and> count_where is_digit s = 4))"
proof (intro ballI impI)
  fix d
  assume d: "d \<in> set (trace (snd (main host env)))" and k: "kind d = RandomString"
  from d obtain r tags vnet vm where
    run: "main host env =
      provision host (Stack env) tags vnet vm (init_state\<lparr>exports := [(''readme'', r)]\<rparr>)"
    by (rule trace_empty_unless_loaded)
  have "built tags (Stack env) vnet vm (snd (main host env)) d"
    using run_built [OF run d] .
  with k have args: "res_args d = RandomStringArgs randomOsDiskId_args"
    by (auto simp: built_def random_decl_def)
  show "\<exists>a. res_args d = RandomStringArgs a \<and>
        Length a = 8 \<and> Lower a \<and> MinLower a = 4 \<and> MinNumeric a = 4 \<and> Numeric a \<and>
        \<not> Special a \<and> \<not> Upper a \<and>
        (\<forall>s. generated a s \<longrightarrow>
           length s = 8 \<and> count_where is_lower s = 4 \<and> count_where is_digit s = 4)"
    using args generated_exact by (intro exI [of _ randomOsDiskId_args])
      (simp add: randomOsDiskId_args_def)
qed

theorem random_identifier_four_letters_four_digits_witness:
  "random_decl {8, 9, 10} \<in> set (trace (snd (main accept_all ex_env))) \<and>
   kind (random_decl {8, 9, 10}) = RandomString \<and>
   generated randomOsDiskId_args ''ab12cd34'' \<and>
   (\<exists>a. res_args (random_decl {8, 9, 10}) = RandomStringArgs a \<and> Length a = 8 \<and>
      MinLower a = 4 \<and> MinNumeric a = 4 \<and> generated a ''ab12cd34'' \<and>
      count_where is_lower ''ab12cd34'' = 4 \<and> count_where is_digit ''ab12cd34'' = 4)"
proof -
  have mem: "random_decl {8, 9, 10} \<in> set (trace (snd (main accept_all ex_env)))"
    by (simp add: ex_run ex_final_def ex_trace_def)
  have gen: "generated randomOsDiskId_args ''ab12cd34''"
    by (simp add: generated_def randomOsDiskId_args_def is_lower_def is_digit_def is_upper_def
          count_where_def)
  have args: "res_args (random_decl {8, 9, 10}) = RandomStringArgs randomOsDiskId_args"
    by (simp add: random_decl_def)
  have "\<exists>a. res_args (random_decl {8, 9, 10}) = RandomStringArgs a \<and>
        Length a = 8 \<and> Lower a \<and> MinLower a = 4 \<and> MinNumeric a = 4 \<and> Numeric a \<and>
        \<not> Special a \<and> \<not> Upper a \<and>
        (\<forall>s. generated a s \<longrightarrow>
           length s = 8 \<and> count_where is_lower s = 4 \<and> count_where is_digit s = 4)"
    using random_identifier_four_letters_four_digits [of accept_all ex_env] mem by simp
  then show ?thesis
    using mem gen args by auto
qed

text \<open>
  C5. The OS disk of every declared virtual machine has caching \<^verbatim>\<open>ReadWrite\<close>, create
  option \<^verbatim>\<open>FromImage\<close>, delete option \<^verbatim>\<open>Delete\<close> and size 127 GiB. Its name is the format
  \<^verbatim>\<open>os-%s%s\<close> applied to the name suffix and to the result of a declared random string
  whose arguments are those of C10; once the host has generated that string for these
  arguments (\<open>generated\<close>), the name is \<^verbatim>\<open>os-panos-vm-<stack>-\<close> followed by it, and the
  string has 8 characters, all lowercase letters or digits, at least 4 of each.
\<close>

theorem os_disk_declared:
  "\<forall>d\<in>set (trace (snd (main host env))). \<forall>a. res_args d = VirtualMachineArgs a \<longrightarrow>
     Caching (OsDisk a) = CachingTypesReadWrite \<and>
     CreateOption (OsDisk a) = ''FromImage'' \<and>
     DeleteOption (OsDisk a) = ''Delete'' \<and>
     DiskSizeGB (OsDisk a) = 127 \<and>
     (\<exists>rnd. osd_Name (OsDisk a)
               = Sprintf ''os-%s%s'' [Str (nameSuffix (Stack env)), Out (ResultOf rnd)] \<and>
        rnd < length (trace (snd (main host env))) \<and>
        res_args (trace (snd (main host env)) ! rnd) = RandomStringArgs randomOsDiskId_args \<and>
        (\<forall>\<rho>. generated randomOsDiskId_args (\<rho> (ResultOf rnd)) \<longrightarrow>
           resolve \<rho> (osd_Name (OsDisk a))
             = ''os-panos-vm-'' @ Stack env @ ''-'' @ \<rho> (ResultOf rnd) \<and>
           length (\<rho> (ResultOf rnd)) = 8 \<and>
           list_all (\<lambda>c. is_lower c \<or> is_digit c) (\<rho> (ResultOf rnd)) \<and>
           4 \<le> count_where is_lower (\<rho> (ResultOf rnd)) \<and>
           4 \<le> count_where is_digit (\<rho> (ResultOf rnd))))"
proof (intro ballI allI impI)
  fix d a
  let ?tr = "trace (snd (main host env))"
  assume d: "d \<in> set ?tr" and a: "res_args d = VirtualMachineArgs a"
  from d obtain r tags vnet vm where
    run: "main host env =
      provision host (Stack env) tags vnet vm (init_state\<lparr>exports := [(''readme'', r)]\<rparr>)"
    by (rule trace_empty_unless_loaded)
  have k: "kind d = VirtualMachine"
    using a by (simp add: kind_def)
  have "built tags (Stack env) vnet vm (snd (main host env)) d"
    using run_built [OF run d] .
  with k have "vm_built tags (Stack env) vm (nicMap (snd (main host env))) ?tr d"
    by (simp add: built_def)
  then obtain rg deps n0 n1 n2 rnd deps' where rnd: "rnd < length ?tr"
    "?tr ! rnd = random_decl deps'"
    and dd: "d = vm_decl tags (Stack env) rg vm deps n0 n1 n2 rnd"
    unfolding vm_built_def by blast
  have a_eq: "a = virtualMachine_args tags (Stack env) rg vm n0 n1 n2 rnd"
    using a dd by (simp add: vm_decl_def)
  have name: "osd_Name (OsDisk a)
                = Sprintf ''os-%s%s'' [Str (nameSuffix (Stack env)), Out (ResultOf rnd)]"
    by (simp add: a_eq virtualMachine_args_def)
  have rargs: "res_args (?tr ! rnd) = RandomStringArgs randomOsDiskId_args"
    using rnd(2) by (simp add: random_decl_def)
  have gen: "resolve \<rho> (osd_Name (OsDisk a))
               = ''os-panos-vm-'' @ Stack env @ ''-'' @ \<rho> (ResultOf rnd) \<and>
             length (\<rho> (ResultOf rnd)) = 8 \<and>
             list_all (\<lambda>c. is_lower c \<or> is_digit c) (\<rho> (ResultOf rnd)) \<and>
             4 \<le> count_where is_lower (\<rho> (ResultOf rnd)) \<and>
             4 \<le> count_where is_digit (\<rho> (ResultOf rnd))"
    if "generated randomOsDiskId_args (\<rho> (ResultOf rnd))" for \<rho>
    using generated_exact [OF that] by (simp add: name sprintf_os nameSuffix_def del: sprintf.simps)
  show "Caching (OsDisk a) = CachingTypesReadWrite \<and>
     CreateOption (OsDisk a) = ''FromImage'' \<and>
     DeleteOption (OsDisk a) = ''Delete'' \<and>
     DiskSizeGB (OsDisk a) = 127 \<and>
     (\<exists>rnd. osd_Name (OsDisk a)
               = Sprintf ''os-%s%s'' [Str (nameSuffix (Stack env)), Out (ResultOf rnd)] \<and>
        rnd < length ?tr \<and>
        res_args (?tr ! rnd) = RandomStringArgs randomOsDiskId_args \<and>
        (\<forall>\<rho>. generated randomOsDiskId_args (\<rho> (ResultOf rnd)) \<longrightarrow>
           resolve \<rho> (osd_Name (OsDisk a))
             = ''os-panos-vm-'' @ Stack env @ ''-'' @ \<rho> (ResultOf rnd) \<and>
           length (\<rho> (ResultOf rnd)) = 8 \<and>
           list_all (\<lambda>c. is_lower c \<or> is_digit c) (\<rho> (ResultOf rnd)) \<and>
           4 \<le> count_where is_lower (\<rho> (ResultOf rnd)) \<and>
           4 \<le> count_where is_digit (\<rho> (ResultOf rnd))))"
  proof (intro conjI)
    show "\<exists>rnd. osd_Name (OsDisk a)
               = Sprintf ''os-%s%s'' [Str (nameSuffix (Stack env)), Out (ResultOf rnd)] \<and>
        rnd < length ?tr \<and>
        res_args (?tr ! rnd) = RandomStringArgs randomOsDiskId_args \<and>
        (\<forall>\<rho>. generated randomOsDiskId_args (\<rho> (ResultOf rnd)) \<longrightarrow>
           resolve \<rho> (osd_Name (OsDisk a))
             = ''os-panos-vm-'' @ Stack env @ ''-'' @ \<rho> (ResultOf rnd) \<and>
           length (\<rho> (ResultOf rnd)) = 8 \<and>
           list_all (\<lambda>c. is_lower c \<or> is_digit c) (\<rho> (ResultOf rnd)) \<and>
           4 \<le> count_where is_lower (\<rho> (ResultOf rnd)) \<and>
           4 \<le> count_where is_digit (\<rho> (ResultOf rnd)))"
      using name rnd(1) rargs gen by (intro exI [of _ rnd]) blast
  qed (simp_all add: a_eq virtualMachine_args_def)
qed

theorem os_disk_declared_witness:
  "last ex_trace \<in> set (trace (snd (main accept_all ex_env))) \<and>
   res_args (last ex_trace)
     = VirtualMachineArgs (virtualMachine_args ex_tags ''dev'' 0 ex_vm (IdOf 8) (IdOf 9)
         (IdOf 10) 11) \<and>
   generated randomOsDiskId_args ''ab12cd34'' \<and>
   DiskSizeGB (OsDisk (virtualMachine_args ex_tags ''dev'' 0 ex_vm (IdOf 8) (IdOf 9)
     (IdOf 10) 11)) = 127 \<and>
   resolve (\<lambda>_. ''ab12cd34'') (osd_Name (OsDisk (virtualMachine_args ex_tags ''dev'' 0 ex_vm
     (IdOf 8) (IdOf 9) (IdOf 10) 11))) = ''os-panos-vm-dev-ab12cd34''"
proof -
  let ?a = "virtualMachine_args ex_tags ''dev'' 0 ex_vm (IdOf 8) (IdOf 9) (IdOf 10) 11"
  have mem: "last ex_trace \<in> set (trace (snd (main accept_all ex_env)))"
    by (simp add: ex_run ex_final_def ex_trace_def)
  have args: "res_args (last ex_trace) = VirtualMachineArgs ?a"
    by (simp add: ex_trace_def vm_decl_def)
  have gen: "generated randomOsDiskId_args ''ab12cd34''"
    by (simp add: generated_def randomOsDiskId_args_def is_lower_def is_digit_def is_upper_def
          count_where_def)
  from os_disk_declared [of accept_all ex_env] mem args
  have size: "DiskSizeGB (OsDisk ?a) = 127"
    and "\<exists>rnd. \<forall>\<rho>. generated randomOsDiskId_args (\<rho> (ResultOf rnd)) \<longrightarrow>
           resolve \<rho> (osd_Name (OsDisk ?a))
             = ''os-panos-vm-'' @ Stack ex_env @ ''-'' @ \<rho> (ResultOf rnd)"
    by blast+
  then obtain rnd where "\<forall>\<rho>. generated randomOsDiskId_args (\<rho> (ResultOf rnd)) \<longrightarrow>
           resolve \<rho> (osd_Name (OsDisk ?a))
             = ''os-panos-vm-'' @ Stack ex_env @ ''-'' @ \<rho> (ResultOf rnd)"
    by blast
  from this [rule_format, of "\<lambda>_. ''ab12cd34''"] gen
  have "resolve (\<lambda>_. ''ab12cd34'') (osd_Name (OsDisk ?a)) = ''os-panos-vm-dev-ab12cd34''"
    by (simp add: ex_env_def)
  then show ?thesis
    using mem args gen size by blast
qed

section \<open>The references of the declarations\<close>

lemma index_lastD:
  assumes "index_last k f m tr" and "map_of m n = Some h"
  shows "h < length tr" and "kind (tr ! h) = k" and "res_name (tr ! h) = f n"
    and "\<And>j. h < j \<Longrightarrow> j < length tr \<Longrightarrow> \<not> (kind (tr ! j) = k \<and> res_name (tr ! j) = f n)"
  using assms unfolding index_last_def by blast+

text \<open>
  C6, as the code has it. Every declared virtual machine has exactly three interface
  references, in this order the handles that the interface map gives for the configured
  names \<^verbatim>\<open>nic0\<close>, \<^verbatim>\<open>nic1\<close> and \<^verbatim>\<open>nic2\<close>, each the handle of a declared interface of that
  logical name; the first reference is marked primary and the other two are not, so
  exactly one reference is. Two references are to the same interface exactly when their
  two names are the same: the references are to three interfaces if and only if the three
  names differ.
\<close>

theorem vm_three_nics_one_primary:
  "\<forall>d\<in>set (trace (snd (main host env))). \<forall>a. res_args d = VirtualMachineArgs a \<longrightarrow>
     (\<exists>vm h0 h1 h2. cfg_vm env = Some vm \<and>
        map_of (nicMap (snd (main host env))) (Nic0 (NicMap vm)) = Some h0 \<and>
        map_of (nicMap (snd (main host env))) (Nic1 (NicMap vm)) = Some h1 \<and>
        map_of (nicMap (snd (main host env))) (Nic2 (NicMap vm)) = Some h2 \<and>
        NetworkInterfaces a = [\<lparr>ref_Id = IdOf h0, Primary = True\<rparr>,
          \<lparr>ref_Id = IdOf h1, Primary = False\<rparr>, \<lparr>ref_Id = IdOf h2, Primary = False\<rparr>] \<and>
        length (NetworkInterfaces a) = 3 \<and>
        length (filter Primary (NetworkInterfaces a)) = 1 \<and>
        list_all2 (\<lambda>h n. h < length (trace (snd (main host env))) \<and>
            kind (trace (snd (main host env)) ! h) = NetworkInterface \<and>
            res_name (trace (snd (main host env)) ! h)
              = ''nic-'' @ n @ ''-'' @ nameSuffix (Stack env))
          [h0, h1, h2] [Nic0 (NicMap vm), Nic1 (NicMap vm), Nic2 (NicMap vm)] \<and>
        (h0 = h1) = (Nic0 (NicMap vm) = Nic1 (NicMap vm)) \<and>
        (h0 = h2) = (Nic0 (NicMap vm) = Nic2 (NicMap vm)) \<and>
        (h1 = h2) = (Nic1 (NicMap vm) = Nic2 (NicMap vm)) \<and>
        distinct (map ref_Id (NetworkInterfaces a))
          = distinct [Nic0 (NicMap vm), Nic1 (NicMap vm), Nic2 (NicMap vm)])"
proof (intro ballI allI impI)
  fix d a
  let ?st = "snd (main host env)"
  let ?tr = "trace ?st"
  assume d: "d \<in> set ?tr" and a: "res_args d = VirtualMachineArgs a"
  from d obtain r tags vnet vm where vm: "cfg_vm env = Some vm"
    and run: "main host env =
      provision host (Stack env) tags vnet vm (init_state\<lparr>exports := [(''readme'', r)]\<rparr>)"
    by (rule trace_empty_unless_loaded)
  have k: "kind d = VirtualMachine"
    using a by (simp add: kind_def)
  have "built tags (Stack env) vnet vm ?st d"
    using run_built [OF run d] .
  with k have "vm_built tags (Stack env) vm (nicMap ?st) ?tr d"
    by (simp add: built_def)
  then obtain rg deps h0 h1 h2 rnd where
    look: "map_of (nicMap ?st) (Nic0 (NicMap vm)) = Some h0"
      "map_of (nicMap ?st) (Nic1 (NicMap vm)) = Some h1"
      "map_of (nicMap ?st) (Nic2 (NicMap vm)) = Some h2"
    and dd: "d = vm_decl tags (Stack env) rg vm deps (IdOf h0) (IdOf h1) (IdOf h2) rnd"
    unfolding vm_built_def by blast
  have refs: "NetworkInterfaces a = [\<lparr>ref_Id = IdOf h0, Primary = True\<rparr>,
          \<lparr>ref_Id = IdOf h1, Primary = False\<rparr>, \<lparr>ref_Id = IdOf h2, Primary = False\<rparr>]"
    using a dd by (auto simp: vm_decl_def virtualMachine_args_def)
  have idx: "index_last NetworkInterface (declared_name (Stack env) NetworkInterface)
               (nicMap ?st) ?tr"
    using run_indexed [OF run] by (simp add: indexed_def)
  have nics: "list_all2 (\<lambda>h n. h < length ?tr \<and> kind (?tr ! h) = NetworkInterface \<and>
            res_name (?tr ! h) = ''nic-'' @ n @ ''-'' @ nameSuffix (Stack env))
          [h0, h1, h2] [Nic0 (NicMap vm), Nic1 (NicMap vm), Nic2 (NicMap vm)]"
    using index_lastD(1-3) [OF idx look(1)] index_lastD(1-3) [OF idx look(2)]
      index_lastD(1-3) [OF idx look(3)]
    by (simp add: declared_name.simps)
  have same: "(h = h') = (n = n')"
    if "map_of (nicMap ?st) n = Some h" "map_of (nicMap ?st) n' = Some h'" for h h' n n'
  proof
    assume "h = h'"
    then have "declared_name (Stack env) NetworkInterface n
                 = declared_name (Stack env) NetworkInterface n'"
      using index_lastD(3) [OF idx that(1)] index_lastD(3) [OF idx that(2)] by simp
    then show "n = n'"
      by (rule declared_name_inj) simp
  next
    assume "n = n'"
    then show "h = h'" using that by simp
  qed
  have eqs: "(h0 = h1) = (Nic0 (NicMap vm) = Nic1 (NicMap vm))"
    "(h0 = h2) = (Nic0 (NicMap vm) = Nic2 (NicMap vm))"
    "(h1 = h2) = (Nic1 (NicMap vm) = Nic2 (NicMap vm))"
    using same [OF look(1) look(2)] same [OF look(1) look(3)] same [OF look(2) look(3)]
    by simp_all
  have dist: "distinct (map ref_Id (NetworkInterfaces a))
          = distinct [Nic0 (NicMap vm), Nic1 (NicMap vm), Nic2 (NicMap vm)]"
    using eqs by (auto simp: refs)
  show "\<exists>vm h0 h1 h2. cfg_vm env = Some vm \<and>
        map_of (nicMap ?st) (Nic0 (NicMap vm)) = Some h0 \<and>
        map_of (nicMap ?st) (Nic1 (NicMap vm)) = Some h1 \<and>
        map_of (nicMap ?st) (Nic2 (NicMap vm)) = Some h2 \<and>
        NetworkInterfaces a = [\<lparr>ref_Id = IdOf h0, Primary = True\<rparr>,
          \<lparr>ref_Id = IdOf h1, Primary = False\<rparr>, \<lparr>ref_Id = IdOf h2, Primary = False\<rparr>] \<and>
        length (NetworkInterfaces a) = 3 \<and>
        length (filter Primary (NetworkInterfaces a)) = 1 \<and>
        list_all2 (\<lambda>h n. h < length ?tr \<and> kind (?tr ! h) = NetworkInterface \<and>
            res_name (?tr ! h) = ''nic-'' @ n @ ''-'' @ nameSuffix (Stack env))
          [h0, h1, h2] [Nic0 (NicMap vm), Nic1 (NicMap vm), Nic2 (NicMap vm)] \<and>
        (h0 = h1) = (Nic0 (NicMap vm) = Nic1 (NicMap vm)) \<and>
        (h0 = h2) = (Nic0 (NicMap vm) = Nic2 (NicMap vm)) \<and>
        (h1 = h2) = (Nic1 (NicMap vm) = Nic2 (NicMap vm)) \<and>
        distinct (map ref_Id (NetworkInterfaces a))
          = distinct [Nic0 (NicMap vm), Nic1 (NicMap vm), Nic2 (NicMap vm)]"
    using vm look refs nics eqs dist
    by (intro exI [of _ vm] exI [of _ h0] exI [of _ h1] exI [of _ h2]) simp
qed

theorem vm_three_nics_one_primary_witness:
  "last ex_trace \<in> set (trace (snd (main accept_all ex_env))) \<and>
   res_args (last ex_trace)
     = VirtualMachineArgs (virtualMachine_args ex_tags ''dev'' 0 ex_vm (IdOf 8) (IdOf 9)
         (IdOf 10) 11) \<and>
   NetworkInterfaces (virtualMachine_args ex_tags ''dev'' 0 ex_vm (IdOf 8) (IdOf 9)
       (IdOf 10) 11)
     = [\<lparr>ref_Id = IdOf 8, Primary = True\<rparr>, \<lparr>ref_Id = IdOf 9, Primary = False\<rparr>,
        \<lparr>ref_Id = IdOf 10, Primary = False\<rparr>] \<and>
   length (filter Primary (NetworkInterfaces (virtualMachine_args ex_tags ''dev'' 0 ex_vm
     (IdOf 8) (IdOf 9) (IdOf 10) 11))) = 1 \<and>
   map_of (nicMap (snd (main accept_all ex_env))) (Nic0 (NicMap ex_vm)) = Some 8 \<and>
   cfg_vm ex_env = Some ex_vm \<and>
   distinct [Nic0 (NicMap ex_vm), Nic1 (NicMap ex_vm), Nic2 (NicMap ex_vm)] \<and>
   distinct (map ref_Id (NetworkInterfaces (virtualMachine_args ex_tags ''dev'' 0 ex_vm
     (IdOf 8) (IdOf 9) (IdOf 10) 11)))"
proof -
  let ?a = "virtualMachine_args ex_tags ''dev'' 0 ex_vm (IdOf 8) (IdOf 9) (IdOf 10) 11"
  have mem: "last ex_trace \<in> set (trace (snd (main accept_all ex_env)))"
    by (simp add: ex_run ex_final_def ex_trace_def)
  have args: "res_args (last ex_trace) = VirtualMachineArgs ?a"
    by (simp add: ex_trace_def vm_decl_def)
  have refs: "NetworkInterfaces ?a
     = [\<lparr>ref_Id = IdOf 8, Primary = True\<rparr>, \<lparr>ref_Id = IdOf 9, Primary = False\<rparr>,
        \<lparr>ref_Id = IdOf 10, Primary = False\<rparr>]"
    by (simp add: virtualMachine_args_def)
  have look: "map_of (nicMap (snd (main accept_all ex_env))) (Nic0 (NicMap ex_vm)) = Some 8"
    by (simp add: ex_run ex_final_def ex_vm_def)
  have cfg: "cfg_vm ex_env = Some ex_vm"
    by (simp add: ex_env_def)
  have names: "distinct [Nic0 (NicMap ex_vm), Nic1 (NicMap ex_vm), Nic2 (NicMap ex_vm)]"
    by (simp add: ex_vm_def)
  from vm_three_nics_one_primary [of accept_all ex_env] mem args
  have "\<exists>vm. cfg_vm ex_env = Some vm \<and>
          length (filter Primary (NetworkInterfaces ?a)) = 1 \<and>
          distinct (map ref_Id (NetworkInterfaces ?a))
            = distinct [Nic0 (NicMap vm), Nic1 (NicMap vm), Nic2 (NicMap vm)]"
    by blast
  with cfg names have "length (filter Primary (NetworkInterfaces ?a)) = 1"
    and "distinct (map ref_Id (NetworkInterfaces ?a))"
    by auto
  then show ?thesis
    using mem args refs look cfg names by blast
qed

lemma same_nic_run:
  "fst (main accept_all same_nic_env) = Inr ()"
  "last (trace (snd (main accept_all same_nic_env)))
     = vm_decl ex_tags ''dev'' 0 same_nic_vm {8, 9, 10} (IdOf 8) (IdOf 8) (IdOf 8) 11"
  by (simp_all add: run_defs same_nic_env_def same_nic_vm_def ex_env_def ex_vnet_def ex_vm_def
        ex_tags_def ex_nsgs_def ex_rts_def ex_snets_def ex_pips_def ex_nics_def insert_commute
        eval_nat_numeral)

text \<open>
  Counterexample to C6 as the specification states it: when the configuration gives the
  same name for \<^verbatim>\<open>nic0\<close>, \<^verbatim>\<open>nic1\<close> and \<^verbatim>\<open>nic2\<close>, the run ends normally and the virtual
  machine is declared with three references to one interface, which is so referenced once
  as primary and twice as not primary.
\<close>

theorem vm_three_nics_one_primary_counterexample:
  "fst (main accept_all same_nic_env) = Inr () \<and>
   kind (last (trace (snd (main accept_all same_nic_env)))) = VirtualMachine \<and>
   NetworkInterfaces (vm_args (res_args (last (trace (snd (main accept_all same_nic_env))))))
     = [\<lparr>ref_Id = IdOf 8, Primary = True\<rparr>, \<lparr>ref_Id = IdOf 8, Primary = False\<rparr>,
        \<lparr>ref_Id = IdOf 8, Primary = False\<rparr>] \<and>
   card (set (map ref_Id (NetworkInterfaces
     (vm_args (res_args (last (trace (snd (main accept_all same_nic_env)))))))))
     = 1"
  by (simp add: same_nic_run) (simp add: vm_decl_def virtualMachine_args_def)

section \<open>More runs on examples\<close>


lemma anon_pip_run:
  "trace (snd (main accept_all anon_pip_env)) ! 9
     = nic_decl ex_tags ''dev'' 0 {7} (ex_nics ! 1) (IdOf 6) (Some 7)"
  by (simp add: run_defs anon_pip_env_def ex_env_def ex_vnet_def ex_vm_def ex_tags_def
        ex_nsgs_def ex_rts_def ex_snets_def ex_pips_def ex_nics_def eval_nat_numeral)

section \<open>Interfaces, subnets and the maps\<close>

lemma main_success_loaded:
  assumes "fst (main host env) = Inr ()"
  obtains r tags vnet vm where "ReadFile env = Inr r" and "cfg_tags env = Some tags"
      and "cfg_vnet env = Some vnet" and "cfg_vm env = Some vm"
      and "main host env =
             provision host (Stack env) tags vnet vm (init_state\<lparr>exports := [(''readme'', r)]\<rparr>)"
  using assms by (cases rule: main_cases [where env = env and host = host]) auto

lemma list_all2_left: "list_all2 R xs ys \<Longrightarrow> x \<in> set xs \<Longrightarrow> \<exists>y\<in>set ys. R x y"
  by (induction rule: list_all2_induct) auto


lemma wired_keys_for_subnets:
  assumes "wired tags stack vnet vm ph st" and "of_kind Subnet (trace st) \<noteq> []"
  shows "fst ` set (nsgMap st) = nsg_Name ` set (vnet_NSG vnet)"
    and "fst ` set (rtMap st) = rt_Name ` set (vnet_RT vnet)"
  using assms by (cases ph; simp add: wired_def)+

lemma wired_keys_for_nics:
  assumes "wired tags stack vnet vm ph st" and "of_kind NetworkInterface (trace st) \<noteq> []"
  shows "fst ` set (snetMap st) = snet_Name ` set (vnet_SNET vnet)"
    and "fst ` set (pipMap st) = pip_Name ` set (vnet_PIP vnet)"
  using assms by (cases ph; simp add: wired_def)+

lemma nic_built_bound:
  assumes b: "nic_built tags stack (snetMap st) (pipMap st) n d"
    and idx: "indexed stack st"
    and keys: "fst ` set (pipMap st) = pip_Name ` set (vnet_PIP vnet)"
  shows "nic_bound stack st vnet n d"
proof -
  from b obtain rg deps hs where hs: "map_of (snetMap st) (SnetName n) = Some hs"
    and d: "d = nic_decl tags stack rg deps n (IdOf hs) (map_of (pipMap st) (PipName n))"
    unfolding nic_built_def by blast
  have si: "index_last Subnet (declared_name stack Subnet) (snetMap st) (trace st)"
    and pi: "index_last PublicIPAddress (declared_name stack PublicIPAddress) (pipMap st)
               (trace st)"
    using idx by (simp_all add: indexed_def)
  have subnet: "hs < length (trace st)" "kind (trace st ! hs) = Subnet"
    "res_name (trace st ! hs) = ''snet-'' @ SnetName n"
    using index_lastD(1-3) [OF si hs] by (simp_all add: declared_name.simps)
  have conf: "IpConfigurations (res_args d) =
          [\<lparr>ipc_Name = ''ipconfig'', ipc_Subnet = IdOf hs,
            ipc_PublicIPAddress = map_option IdOf (map_of (pipMap st) (PipName n))\<rparr>]"
    by (cases "map_of (pipMap st) (PipName n)") (simp_all add: d nic_decl_def ipConfigArgs_def)
  have key: "(map_of (pipMap st) (PipName n) = None)
               = (PipName n \<notin> pip_Name ` set (vnet_PIP vnet))"
    using keys by (simp add: map_of_eq_None_iff)
  have pip: "case map_of (pipMap st) (PipName n) of
        None \<Rightarrow> True
      | Some hp \<Rightarrow> hp < length (trace st) \<and> kind (trace st ! hp) = PublicIPAddress \<and>
          res_name (trace st ! hp) = ''pip-'' @ PipName n @ ''-'' @ nameSuffix stack"
  proof (cases "map_of (pipMap st) (PipName n)")
    case None
    then show ?thesis by simp
  next
    case (Some hp)
    then show ?thesis
      using index_lastD(1-3) [OF pi Some] by (simp add: declared_name.simps)
  qed
  have nm: "kind d = NetworkInterface"
    "res_name d = ''nic-'' @ nic_Name n @ ''-'' @ nameSuffix stack"
    by (simp_all add: d) (simp add: nic_decl_def)
  show ?thesis
    unfolding nic_bound_def using nm hs subnet conf key pip by blast
qed

text \<open>
  C3, as the code has it. Every declared interface is the interface of an entry of the
  configuration: it has exactly one IP configuration, named \<^verbatim>\<open>ipconfig\<close>, bound to the
  handle that the subnet map gives for the entry's \<^verbatim>\<open>SnetName\<close>, and it has a public IP
  address if and only if \<^verbatim>\<open>PipName\<close> is the logical name of a public IP address of the
  configuration, the empty name included; the address is then the one the map gives for
  that name. When the run ends normally, every entry has its interface, in order.
\<close>

theorem nic_ip_configuration:
  "(\<forall>d\<in>set (trace (snd (main host env))). kind d = NetworkInterface \<longrightarrow>
      (\<exists>vnet. cfg_vnet env = Some vnet \<and>
         (\<exists>n\<in>set (vnet_NIC vnet). nic_bound (Stack env) (snd (main host env)) vnet n d))) \<and>
   (\<forall>vnet. fst (main host env) = Inr () \<longrightarrow> cfg_vnet env = Some vnet \<longrightarrow>
      list_all2 (nic_bound (Stack env) (snd (main host env)) vnet) (vnet_NIC vnet)
        (of_kind NetworkInterface (trace (snd (main host env)))))"
proof (intro conjI ballI allI impI)
  fix d
  let ?st = "snd (main host env)"
  assume d: "d \<in> set (trace ?st)" and k: "kind d = NetworkInterface"
  from d obtain r tags vnet vm where vnet: "cfg_vnet env = Some vnet"
    and run: "main host env =
      provision host (Stack env) tags vnet vm (init_state\<lparr>exports := [(''readme'', r)]\<rparr>)"
    by (rule trace_empty_unless_loaded)
  obtain ph where w: "wired tags (Stack env) vnet vm ph ?st"
    using run_wired [OF run] by blast
  have "of_kind NetworkInterface (trace ?st) \<noteq> []"
    using in_of_kind [OF d] k by auto
  then have keys: "fst ` set (pipMap ?st) = pip_Name ` set (vnet_PIP vnet)"
    using wired_keys_for_nics(2) [OF w] by simp
  have "built tags (Stack env) vnet vm ?st d"
    using wired_built [OF w d] .
  with k obtain n where n: "n \<in> set (vnet_NIC vnet)"
    and b: "nic_built tags (Stack env) (snetMap ?st) (pipMap ?st) n d"
    by (auto simp: built_def)
  have "nic_bound (Stack env) ?st vnet n d"
    using b run_indexed [OF run] keys by (rule nic_built_bound)
  then show "\<exists>vnet. cfg_vnet env = Some vnet \<and>
         (\<exists>n\<in>set (vnet_NIC vnet). nic_bound (Stack env) ?st vnet n d)"
    using vnet n by blast
next
  fix vnet
  let ?st = "snd (main host env)"
  assume ok: "fst (main host env) = Inr ()" and vnet: "cfg_vnet env = Some vnet"
  from ok obtain r tags vnet' vm where "cfg_vnet env = Some vnet'"
    and "main host env =
      provision host (Stack env) tags vnet' vm (init_state\<lparr>exports := [(''readme'', r)]\<rparr>)"
    by (rule main_success_loaded)
  with vnet have run: "main host env =
      provision host (Stack env) tags vnet vm (init_state\<lparr>exports := [(''readme'', r)]\<rparr>)"
    by simp
  have w: "wired tags (Stack env) vnet vm P_done ?st"
    using run_wired [OF run] ok by blast
  then have all: "list_all2 (nic_built tags (Stack env) (snetMap ?st) (pipMap ?st))
      (vnet_NIC vnet) (of_kind NetworkInterface (trace ?st))"
    and keys: "fst ` set (pipMap ?st) = pip_Name ` set (vnet_PIP vnet)"
    by (simp_all add: wired_def)
  show "list_all2 (nic_bound (Stack env) ?st vnet) (vnet_NIC vnet)
          (of_kind NetworkInterface (trace ?st))"
    using all nic_built_bound [OF _ run_indexed [OF run] keys]
    by (rule list_all2_mono)
qed


theorem nic_ip_configuration_witness:
  "ex_trace ! 8 \<in> set (trace (snd (main accept_all ex_env))) \<and>
   kind (ex_trace ! 8) = NetworkInterface \<and>
   fst (main accept_all ex_env) = Inr () \<and> cfg_vnet ex_env = Some ex_vnet \<and>
   (\<exists>n\<in>set (vnet_NIC ex_vnet). nic_bound (Stack ex_env) (snd (main accept_all ex_env))
      ex_vnet n (ex_trace ! 8)) \<and>
   list_all2 (nic_bound (Stack ex_env) (snd (main accept_all ex_env)) ex_vnet)
     (vnet_NIC ex_vnet) (of_kind NetworkInterface (trace (snd (main accept_all ex_env))))"
proof -
  have mem: "ex_trace ! 8 \<in> set (trace (snd (main accept_all ex_env)))"
    by (simp add: ex_run ex_final_def ex_trace_def)
  have k: "kind (ex_trace ! 8) = NetworkInterface"
    by (simp add: ex_trace_def)
  have ok: "fst (main accept_all ex_env) = Inr ()"
    by (simp add: ex_run)
  have cfg: "cfg_vnet ex_env = Some ex_vnet"
    by (simp add: ex_env_def)
  show ?thesis
    using nic_ip_configuration [of accept_all ex_env] mem k ok cfg by auto
qed

text \<open>
  Counterexample to C3 as the specification states it: with a public IP address whose
  logical name is empty, the interface whose \<^verbatim>\<open>PipName\<close> is empty is declared with that
  public IP address.
\<close>

theorem nic_ip_configuration_counterexample:
  "PipName (ex_nics ! 1) = '''' \<and>
   cfg_vnet anon_pip_env = Some (ex_vnet\<lparr>vnet_PIP := [\<lparr>pip_Name = ''''\<rparr>]\<rparr>) \<and>
   kind (trace (snd (main accept_all anon_pip_env)) ! 9) = NetworkInterface \<and>
   res_name (trace (snd (main accept_all anon_pip_env)) ! 9) = ''nic-n1-panos-vm-dev-'' \<and>
   IpConfigurations (res_args (trace (snd (main accept_all anon_pip_env)) ! 9))
     = [\<lparr>ipc_Name = ''ipconfig'', ipc_Subnet = IdOf 6, ipc_PublicIPAddress = Some (IdOf 7)\<rparr>]"
  by (simp add: anon_pip_run, simp add: ex_nics_def anon_pip_env_def ex_env_def nic_decl_def
        ipConfigArgs_def nameSuffix_def)



section \<open>References that do not resolve\<close>

lemma ghost_nsg_run:
  "trace (snd (main accept_all ghost_nsg_env)) = [
     rg_decl ex_tags ''dev'',
     nsg_decl ex_tags ''dev'' 0 (ex_nsgs ! 0),
     nsg_decl ex_tags ''dev'' 0 (ex_nsgs ! 1),
     rt_decl ex_tags ''dev'' 0 {0, 1, 2} (ex_rts ! 0),
     vnet_decl ex_tags ''dev'' 0 {1, 2, 3} (ex_vnet\<lparr>vnet_SNET := ghost_snets\<rparr>),
     snet_decl 0 {1, 2, 3} 4 (ghost_snets ! 0) (IdOf 1) (IdOf 3)]"
  by (simp add: run_defs ghost_nsg_env_def ghost_snets_def ex_env_def ex_vnet_def ex_vm_def
        ex_tags_def ex_nsgs_def ex_rts_def ex_snets_def ex_pips_def ex_nics_def insert_commute
        eval_nat_numeral)

text \<open>
  C1, as the code has it. When a subnet of the configuration names an NSG or a route
  table that the configuration does not have, the run does not end normally: it ends with
  the error of the host when the host refuses a declaration, and otherwise with the panic
  of a nil pointer dereference, a value that carries neither a kind nor a name; this is
  what happens when the host accepts every declaration. A subnet is only ever declared for
  an entry whose two names are names of the configuration.
\<close>

theorem unresolved_subnet_reference_fails:
  assumes "ReadFile env = Inr r" and "cfg_tags env = Some tags"
    and "cfg_vnet env = Some vnet" and "cfg_vm env = Some vm"
    and "\<exists>s\<in>set (vnet_SNET vnet). NSGName s \<notin> nsg_Name ` set (vnet_NSG vnet) \<or>
                                 RTName s \<notin> rt_Name ` set (vnet_RT vnet)"
  shows "(fst (main host env) = Inl NilPointerDereference \<or>
          (\<exists>tr d msg. host tr d = Some msg \<and>
             fst (main host env) = Inl (HostRuntimeError msg))) \<and>
         ((\<forall>tr d. host tr d = None) \<longrightarrow> fst (main host env) = Inl NilPointerDereference) \<and>
         (\<forall>d\<in>set (trace (snd (main host env))). kind d = Subnet \<longrightarrow>
            (\<exists>x\<in>set (vnet_SNET vnet). res_name d = ''snet-'' @ snet_Name x \<and>
               NSGName x \<in> nsg_Name ` set (vnet_NSG vnet) \<and>
               RTName x \<in> rt_Name ` set (vnet_RT vnet)))"
proof -
  let ?st = "snd (main host env)"
  have run: "main host env =
      provision host (Stack env) tags vnet vm (init_state\<lparr>exports := [(''readme'', r)]\<rparr>)"
    using assms(1-4) by (rule main_loaded)
  obtain ph where w: "wired tags (Stack env) vnet vm ph ?st"
    and fin: "fst (main host env) = Inr () \<longrightarrow> ph = P_done"
    using run_wired [OF run] by blast
  have resolved: "NSGName x \<in> nsg_Name ` set (vnet_NSG vnet) \<and>
                  RTName x \<in> rt_Name ` set (vnet_RT vnet)"
    if "snet_built (nsgMap ?st) (rtMap ?st) x d" "d \<in> set (trace ?st)" "kind d = Subnet"
    for x d
  proof -
    have "of_kind Subnet (trace ?st) \<noteq> []"
      using in_of_kind [OF that(2)] that(3) by auto
    then have keys: "fst ` set (nsgMap ?st) = nsg_Name ` set (vnet_NSG vnet)"
      "fst ` set (rtMap ?st) = rt_Name ` set (vnet_RT vnet)"
      using wired_keys_for_subnets [OF w] by simp_all
    from that(1) obtain hn hr where "map_of (nsgMap ?st) (NSGName x) = Some hn"
      "map_of (rtMap ?st) (RTName x) = Some hr"
      unfolding snet_built_def by blast
    then have "NSGName x \<in> fst ` set (nsgMap ?st)" "RTName x \<in> fst ` set (rtMap ?st)"
      by (metis map_of_eq_None_iff option.distinct(1))+
    with keys show ?thesis by simp
  qed
  have not_ok: "fst (main host env) \<noteq> Inr ()"
  proof
    assume ok: "fst (main host env) = Inr ()"
    with w fin have all: "list_all2 (snet_built (nsgMap ?st) (rtMap ?st)) (vnet_SNET vnet)
        (of_kind Subnet (trace ?st))"
      by (simp add: wired_def)
    from assms(5) obtain s where s: "s \<in> set (vnet_SNET vnet)"
      and bad: "NSGName s \<notin> nsg_Name ` set (vnet_NSG vnet) \<or>
                RTName s \<notin> rt_Name ` set (vnet_RT vnet)"
      by blast
    from list_all2_left [OF all s] obtain d where d: "d \<in> set (of_kind Subnet (trace ?st))"
      and b: "snet_built (nsgMap ?st) (rtMap ?st) s d"
      by blast
    from d have "d \<in> set (trace ?st)" "kind d = Subnet"
      by (simp_all add: of_kind_def)
    with resolved [OF b] bad show False by blast
  qed
  then obtain e where e: "fst (main host env) = Inl e"
    by (cases "fst (main host env)") auto
  have rf: "runtime_failure host e"
    using run e by (rule run_failure)
  have first: "fst (main host env) = Inl NilPointerDereference \<or>
          (\<exists>tr d msg. host tr d = Some msg \<and>
             fst (main host env) = Inl (HostRuntimeError msg))"
    using rf e unfolding runtime_failure_def by auto
  have second: "(\<forall>tr d. host tr d = None) \<longrightarrow> fst (main host env) = Inl NilPointerDereference"
    using first by auto
  have third: "\<exists>x\<in>set (vnet_SNET vnet). res_name d = ''snet-'' @ snet_Name x \<and>
               NSGName x \<in> nsg_Name ` set (vnet_NSG vnet) \<and>
               RTName x \<in> rt_Name ` set (vnet_RT vnet)"
    if d: "d \<in> set (trace ?st)" and k: "kind d = Subnet" for d
  proof -
    have "built tags (Stack env) vnet vm ?st d"
      using wired_built [OF w d] .
    with k obtain x where x: "x \<in> set (vnet_SNET vnet)"
      and b: "snet_built (nsgMap ?st) (rtMap ?st) x d"
      by (auto simp: built_def)
    have "res_name d = ''snet-'' @ snet_Name x"
      using b by (auto simp: snet_built_def snet_decl_def)
    with x resolved [OF b d k] show ?thesis by blast
  qed
  show ?thesis
    using first second third by blast
qed

theorem unresolved_subnet_reference_fails_witness:
  "ReadFile ghost_nsg_env = Inr ''# readme'' \<and> cfg_tags ghost_nsg_env = Some ex_tags \<and>
   cfg_vnet ghost_nsg_env = Some (ex_vnet\<lparr>vnet_SNET := ghost_snets\<rparr>) \<and>
   cfg_vm ghost_nsg_env = Some ex_vm \<and>
   ghost_snets ! 1 \<in> set ghost_snets \<and> NSGName (ghost_snets ! 1) = ''nsg-ghost'' \<and>
   ''nsg-ghost'' \<notin> nsg_Name ` set ex_nsgs \<and>
   fst (main accept_all ghost_nsg_env) = Inl NilPointerDereference \<and>
   snet_decl 0 {1, 2, 3} 4 (ghost_snets ! 0) (IdOf 1) (IdOf 3)
     \<in> set (trace (snd (main accept_all ghost_nsg_env))) \<and>
   kind (snet_decl 0 {1, 2, 3} 4 (ghost_snets ! 0) (IdOf 1) (IdOf 3)) = Subnet \<and>
   (\<exists>x\<in>set ghost_snets.
      res_name (snet_decl 0 {1, 2, 3} 4 (ghost_snets ! 0) (IdOf 1) (IdOf 3))
        = ''snet-'' @ snet_Name x \<and>
      NSGName x \<in> nsg_Name ` set ex_nsgs \<and> RTName x \<in> rt_Name ` set ex_rts)"
proof -
  let ?vnet = "ex_vnet\<lparr>vnet_SNET := ghost_snets\<rparr>"
  let ?d = "snet_decl 0 {1, 2, 3} 4 (ghost_snets ! 0) (IdOf 1) (IdOf 3)"
  have cfg: "ReadFile ghost_nsg_env = Inr ''# readme''" "cfg_tags ghost_nsg_env = Some ex_tags"
    "cfg_vnet ghost_nsg_env = Some ?vnet" "cfg_vm ghost_nsg_env = Some ex_vm"
    by (simp_all add: ghost_nsg_env_def ex_env_def)
  have ghost: "ghost_snets ! 1 \<in> set ghost_snets" "NSGName (ghost_snets ! 1) = ''nsg-ghost''"
    "''nsg-ghost'' \<notin> nsg_Name ` set ex_nsgs"
    by (simp_all add: ghost_snets_def ex_nsgs_def)
  have bad: "\<exists>s\<in>set (vnet_SNET ?vnet). NSGName s \<notin> nsg_Name ` set (vnet_NSG ?vnet) \<or>
                                 RTName s \<notin> rt_Name ` set (vnet_RT ?vnet)"
  proof (rule bexI [of _ "ghost_snets ! 1"])
    show "NSGName (ghost_snets ! 1) \<notin> nsg_Name ` set (vnet_NSG ?vnet) \<or>
          RTName (ghost_snets ! 1) \<notin> rt_Name ` set (vnet_RT ?vnet)"
      using ghost(2,3) by (simp add: ex_vnet_def)
    show "ghost_snets ! 1 \<in> set (vnet_SNET ?vnet)"
      using ghost(1) by simp
  qed
  have mem: "?d \<in> set (trace (snd (main accept_all ghost_nsg_env)))"
    by (simp add: ghost_nsg_run)
  have k: "kind ?d = Subnet"
    by simp
  note inst = unresolved_subnet_reference_fails [OF cfg bad, of accept_all]
  have fails: "fst (main accept_all ghost_nsg_env) = Inl NilPointerDereference"
    using inst by (simp add: accept_all_def)
  have "\<exists>x\<in>set (vnet_SNET ?vnet). res_name ?d = ''snet-'' @ snet_Name x \<and>
               NSGName x \<in> nsg_Name ` set (vnet_NSG ?vnet) \<and>
               RTName x \<in> rt_Name ` set (vnet_RT ?vnet)"
    using inst mem k by blast
  then have "\<exists>x\<in>set ghost_snets. res_name ?d = ''snet-'' @ snet_Name x \<and>
      NSGName x \<in> nsg_Name ` set ex_nsgs \<and> RTName x \<in> rt_Name ` set ex_rts"
    by (simp add: ex_vnet_def)
  then show ?thesis
    using cfg ghost fails mem k by blast
qed

text \<open>
  Counterexample to C1 as the specification states it: a subnet that names a missing NSG
  and a subnet that names a missing route table end the run with the same value, the
  panic of a nil pointer dereference, which identifies neither the kind nor the name.
\<close>

theorem unresolved_subnet_reference_counterexample:
  "fst (main accept_all ghost_nsg_env) = Inl NilPointerDereference \<and>
   fst (main accept_all ghost_rt_env) = Inl NilPointerDereference"
  by (simp add: run_defs ghost_nsg_env_def ghost_rt_env_def ghost_snets_def ex_env_def
        ex_vnet_def ex_vm_def ex_tags_def ex_nsgs_def ex_rts_def ex_snets_def ex_pips_def
        ex_nics_def)

end
